theory Spec2Isabelle
  imports Complex_Main
begin

section \<open>Python and numpy values\<close>

text \<open>
  The exceptions that the modelled part of \<^verbatim>\<open>genEM3/data/wkwdata.py\<close> can raise.
  \<open>SplitError\<close> is the plain \<^verbatim>\<open>Exception\<close> of \<^verbatim>\<open>get_data_ind_splits\<close>,
  \<open>StoreError\<close> a failure of \<^verbatim>\<open>wkw.Dataset.open\<close> on a path that holds no dataset.
\<close>

datatype error =
    KeyError | IndexError | ValueError | TypeError | AttributeError | AssertionError
  | SplitError | StoreError

text \<open>Sequencing of calls that may raise: the first exception ends the computation.\<close>

definition ebind :: "error + 'a \<Rightarrow> ('a \<Rightarrow> error + 'b) \<Rightarrow> error + 'b" where
  "ebind m f = (case m of Inl e \<Rightarrow> Inl e | Inr x \<Rightarrow> f x)"

text \<open>A \<^verbatim>\<open>for\<close> loop over a list whose body may raise; the state is threaded through.\<close>

fun for_each :: "'a list \<Rightarrow> ('s \<Rightarrow> 'a \<Rightarrow> error + 's) \<Rightarrow> 's \<Rightarrow> error + 's" where
  "for_each [] body s = Inr s"
| "for_each (x # xs) body s = ebind (body s x) (for_each xs body)"

text \<open>\<^verbatim>\<open>xs[i]\<close> for an index that is not negative.\<close>

definition py_nth :: "'a list \<Rightarrow> nat \<Rightarrow> error + 'a" where
  "py_nth xs i = (if i < length xs then Inr (xs ! i) else Inl IndexError)"

text \<open>
  A numpy array (and a torch tensor): its shape and its elements in row-major (C) order.
  \<^verbatim>\<open>a.size\<close> is the product of the shape, \<^verbatim>\<open>a.ndim\<close> its length.
\<close>

record 'a ndarray =
  shape :: "nat list"
  elems :: "'a list"

definition nd_size :: "'a ndarray \<Rightarrow> nat" where
  "nd_size a = prod_list (shape a)"

definition ndim :: "'a ndarray \<Rightarrow> nat" where
  "ndim a = length (shape a)"

text \<open>The element \<^verbatim>\<open>a[i, j, k]\<close> of a three-dimensional array, indices in range.\<close>

definition at3 :: "'a ndarray \<Rightarrow> nat \<Rightarrow> nat \<Rightarrow> nat \<Rightarrow> 'a" where
  "at3 a i j k = elems a ! ((i * (shape a ! 1) + j) * (shape a ! 2) + k)"

text \<open>
  \<^verbatim>\<open>np.arange(start, stop, step)\<close> on integers: \<open>ceil((stop - start) / step)\<close> values
  (none when that is not positive), \<open>start + i * step\<close> each. A zero step raises.
\<close>

definition arange :: "int \<Rightarrow> int \<Rightarrow> int \<Rightarrow> error + int list" where
  "arange start stop step =
     (if step = 0 then Inl ValueError
      else Inr (map (\<lambda>i. start + int i * step) [0..<nat (- ((start - stop) div step))]))"

text \<open>
  \<^verbatim>\<open>np.meshgrid(x, y, z)\<close> with the default \<^verbatim>\<open>indexing='xy'\<close>: three arrays of shape
  \<open>(len y, len x, len z)\<close> with \<open>xm[i, j, k] = x[j]\<close>, \<open>ym[i, j, k] = y[i]\<close> and
  \<open>zm[i, j, k] = z[k]\<close>.
\<close>

definition meshgrid ::
  "'a list \<Rightarrow> 'a list \<Rightarrow> 'a list \<Rightarrow> 'a ndarray \<times> 'a ndarray \<times> 'a ndarray" where
  "meshgrid x y z =
     (let sh = [length y, length x, length z] in
      (\<lparr>shape = sh, elems = concat (map (\<lambda>yi. concat (map (\<lambda>xj. map (\<lambda>zk. xj) z) x)) y)\<rparr>,
       \<lparr>shape = sh, elems = concat (map (\<lambda>yi. concat (map (\<lambda>xj. map (\<lambda>zk. yi) z) x)) y)\<rparr>,
       \<lparr>shape = sh, elems = concat (map (\<lambda>yi. concat (map (\<lambda>xj. map (\<lambda>zk. zk) z) x)) y)\<rparr>))"

text \<open>
  \<^verbatim>\<open>np.unravel_index(index, dims)\<close>: the row-major subscripts of a flat index; an index
  outside \<open>[0, prod dims)\<close> raises. \<open>ravel_index\<close> is the flat position of a subscript.
\<close>

fun unravel :: "nat \<Rightarrow> nat list \<Rightarrow> nat list" where
  "unravel n [] = []"
| "unravel n (d # ds) = (n div prod_list ds) # unravel (n mod prod_list ds) ds"

definition unravel_index :: "int \<Rightarrow> nat list \<Rightarrow> error + nat list" where
  "unravel_index index dims =
     (if index < 0 \<or> int (prod_list dims) \<le> index then Inl ValueError
      else Inr (unravel (nat index) dims))"

fun ravel_index :: "nat list \<Rightarrow> nat list \<Rightarrow> nat" where
  "ravel_index (i # is) (d # ds) = i * prod_list ds + ravel_index is ds"
| "ravel_index _ _ = 0"

text \<open>
  \<^verbatim>\<open>int(np.argmax(np.asarray(maxs) >= idx))\<close>: the first position whose entry is at
  least \<open>idx\<close>, position 0 when there is none; \<^verbatim>\<open>np.argmax\<close> of an empty array raises.
\<close>

definition argmax_ge :: "int list \<Rightarrow> int \<Rightarrow> error + nat" where
  "argmax_ge maxs idx =
     (if maxs = [] then Inl ValueError
      else let k = length (takeWhile (\<lambda>m. \<not> idx \<le> m) maxs)
           in Inr (if k = length maxs then 0 else k))"

section \<open>The data model\<close>

type_synonym vec3 = "int \<times> int \<times> int"

text \<open>A bounding box \<^verbatim>\<open>[pos_x, pos_y, pos_z, ext_x, ext_y, ext_z]\<close>: \<^verbatim>\<open>bbox[0:3]\<close> and \<^verbatim>\<open>bbox[3:6]\<close>.\<close>

type_synonym bbox = "vec3 \<times> vec3"

text \<open>
  The namedtuple \<^verbatim>\<open>DataSource\<close>. Python does not type its fields, so the record is
  polymorphic in them: the dataset reads paths as strings, bounding boxes as six integers
  and statistics as numbers, the descriptor registry moves any JSON value through them.
\<close>

record ('i, 'p, 'b, 'r, 'c, 'f) DataSource =
  ds_id :: 'i
  input_path :: 'p
  input_bbox :: 'b
  input_mean :: 'r
  input_std :: 'r
  target_path :: 'p
  target_bbox :: 'b
  target_class :: 'c
  target_binary :: 'f

text \<open>
  The data sources of a dataset; \<open>target_class\<close> is held as the array that
  \<^verbatim>\<open>np.asarray(target_class)\<close> makes of it.
\<close>

type_synonym source = "(string, string, bbox, real, real ndarray, int) DataSource"

text \<open>
  \<^verbatim>\<open>DataSplit\<close>: \<^verbatim>\<open>type(data_split.train) is float\<close> selects the fractions, anything else
  the lists of data source ids.
\<close>

datatype DataSplit = Fractions real real real | Strata "string list" "string list" "string list"

text \<open>One entry of \<^verbatim>\<open>data_meshes\<close>: \<^verbatim>\<open>{'x': xm, 'y': ym, 'z': zm}\<close> for each sample type.\<close>

record mesh =
  mesh_x :: "int ndarray"
  mesh_y :: "int ndarray"
  mesh_z :: "int ndarray"

record mesh_pair =
  mesh_input :: mesh
  mesh_target :: mesh

datatype sample_type = Input | Target

text \<open>
  The attributes of a \<^verbatim>\<open>WkwData\<close> instance. A transform takes the tensor and the number of
  the random draw it is to use, so that two calls are two draws.
\<close>

record WkwData =
  input_shape :: vec3
  output_shape :: vec3
  data_sources :: "source list"
  data_split :: "DataSplit option"
  stride :: vec3
  normalize_opt :: bool
  transforms :: "(nat \<Rightarrow> real ndarray \<Rightarrow> real ndarray) option"
  pad_target :: bool
  cache_RAM :: bool
  cache_HDD :: bool
  cache_HDD_root :: string
  data_cache_input :: "string \<rightharpoonup> (string \<rightharpoonup> real ndarray)"
  data_meshes :: "mesh_pair list"
  data_inds_min :: "int list"
  data_inds_max :: "int list"
  data_train_inds :: "int list"
  data_validation_inds :: "int list"
  data_test_inds :: "int list"

section \<open>Coordinate grids\<close>

text \<open>
  Lines 163 to 170 of \<^verbatim>\<open>get_data_mesh\<close>, for one axis: origin \<open>p\<close> and extent \<open>e\<close> of the
  input bounding box, window \<open>w\<close>, stride \<open>st\<close>. The floats of the source
  (\<^verbatim>\<open>np.floor(p + w / 2)\<close>, \<^verbatim>\<open>np.floor((e - w) / st)\<close>) are exact on integers of this size,
  so they are the floor divisions of \<open>int\<close>. With a zero stride \<^verbatim>\<open>np.arange\<close> raises
  whatever \<open>n_fits\<close> came out as.
\<close>

definition corner_min_target :: "int \<Rightarrow> int \<Rightarrow> int" where
  "corner_min_target p w = p + w div 2"

definition n_fits :: "int \<Rightarrow> int \<Rightarrow> int \<Rightarrow> int" where
  "n_fits e w st = (e - w) div st + 1"

definition corner_max_target :: "int \<Rightarrow> int \<Rightarrow> int \<Rightarrow> int \<Rightarrow> int" where
  "corner_max_target p e w st = corner_min_target p w + (n_fits e w st - 1) * st"

definition mesh_axis :: "int \<Rightarrow> int \<Rightarrow> int \<Rightarrow> int \<Rightarrow> error + int list" where
  "mesh_axis p e w st = arange (corner_min_target p w) (corner_max_target p e w st + st) st"

definition get_data_axes :: "WkwData \<Rightarrow> nat \<Rightarrow> error + (int list \<times> int list \<times> int list)" where
  "get_data_axes s data_source_idx =
     ebind (py_nth (data_sources s) data_source_idx) (\<lambda>src.
       case (input_bbox src, input_shape s, stride s) of
         (((px, py, pz), (ex, ey, ez)), (wx, wy, wz), (sx, sy, sz)) \<Rightarrow>
           ebind (mesh_axis px ex wx sx) (\<lambda>x.
           ebind (mesh_axis py ey wy sy) (\<lambda>y.
           ebind (mesh_axis pz ez wz sz) (\<lambda>z. Inr (x, y, z)))))"

definition get_data_mesh :: "WkwData \<Rightarrow> nat \<Rightarrow> error + mesh_pair" where
  "get_data_mesh s data_source_idx =
     ebind (get_data_axes s data_source_idx) (\<lambda>(x, y, z).
       case meshgrid x y z of (xm, ym, zm) \<Rightarrow>
         Inr \<lparr>mesh_input = \<lparr>mesh_x = xm, mesh_y = ym, mesh_z = zm\<rparr>,
              mesh_target = \<lparr>mesh_x = xm, mesh_y = ym, mesh_z = zm\<rparr>\<rparr>)"

definition get_data_meshes :: "WkwData \<Rightarrow> error + WkwData" where
  "get_data_meshes s =
     for_each [0..<length (data_sources s)]
       (\<lambda>s' i. ebind (get_data_mesh s' i) (\<lambda>m. Inr (s'\<lparr>data_meshes := data_meshes s' @ [m]\<rparr>))) s"

section \<open>Index ranges\<close>

definition get_data_ind_ranges_body :: "WkwData \<Rightarrow> nat \<Rightarrow> error + WkwData" where
  "get_data_ind_ranges_body s source_idx =
     ebind (if source_idx = 0 then Inr 0
            else ebind (py_nth (data_inds_max s) (source_idx - 1)) (\<lambda>m. Inr (m + 1))) (\<lambda>mn.
       let s1 = s\<lparr>data_inds_min := data_inds_min s @ [mn]\<rparr> in
       ebind (py_nth (data_inds_min s1) source_idx) (\<lambda>lo.
       ebind (py_nth (data_meshes s1) source_idx) (\<lambda>m.
         Inr (s1\<lparr>data_inds_max :=
                   data_inds_max s1 @ [lo + int (nd_size (mesh_x (mesh_target m))) - 1]\<rparr>))))"

definition get_data_ind_ranges :: "WkwData \<Rightarrow> error + WkwData" where
  "get_data_ind_ranges s =
     for_each [0..<length (data_sources s)] get_data_ind_ranges_body s"

text \<open>\<^verbatim>\<open>__len__\<close>: \<^verbatim>\<open>self.data_inds_max[-1] + 1\<close>.\<close>

definition len :: "WkwData \<Rightarrow> error + int" where
  "len s = (if data_inds_max s = [] then Inl IndexError else Inr (last (data_inds_max s) + 1))"

definition get_source_mesh_for_sample_idx :: "WkwData \<Rightarrow> int \<Rightarrow> error + (nat \<times> nat list)" where
  "get_source_mesh_for_sample_idx s sample_idx =
     ebind (argmax_ge (data_inds_max s) sample_idx) (\<lambda>source_idx.
     ebind (py_nth (data_inds_min s) source_idx) (\<lambda>lo.
     ebind (py_nth (data_meshes s) source_idx) (\<lambda>m.
     ebind (unravel_index (sample_idx - lo) (shape (mesh_x (mesh_target m)))) (\<lambda>mesh_inds.
       Inr (source_idx, mesh_inds)))))"

section \<open>Splits\<close>

text \<open>\<^verbatim>\<open>int(x)\<close> of a float: truncation towards zero.\<close>

definition py_int :: "real \<Rightarrow> int" where
  "py_int r = (if 0 \<le> r then \<lfloor>r\<rfloor> else \<lceil>r\<rceil>)"

text \<open>\<^verbatim>\<open>xs[a:b]\<close>: a negative bound counts from the end, and both are clipped to the list.\<close>

definition py_clip :: "nat \<Rightarrow> int \<Rightarrow> nat" where
  "py_clip n i = (if i < 0 then nat (max 0 (i + int n)) else min (nat i) n)"

definition py_slice :: "'a list \<Rightarrow> int \<Rightarrow> int \<Rightarrow> 'a list" where
  "py_slice xs a b =
     (let lo = py_clip (length xs) a; hi = py_clip (length xs) b
      in take (hi - lo) (drop lo xs))"

text \<open>\<^verbatim>\<open>list(range(a, b))\<close>.\<close>

definition py_range :: "int \<Rightarrow> int \<Rightarrow> int list" where
  "py_range a b = map (\<lambda>i. a + int i) [0..<nat (b - a)]"

text \<open>\<^verbatim>\<open>xs.index(v)\<close>: the first position of \<open>v\<close>, \<^verbatim>\<open>ValueError\<close> when it is absent.\<close>

definition py_index :: "'a list \<Rightarrow> 'a \<Rightarrow> error + nat" where
  "py_index xs v =
     (if v \<in> set xs then Inr (length (takeWhile (\<lambda>x. x \<noteq> v) xs)) else Inl ValueError)"

definition datasource_id_to_idx :: "WkwData \<Rightarrow> string \<Rightarrow> error + nat" where
  "datasource_id_to_idx s ident = py_index (map ds_id (data_sources s)) ident"

text \<open>
  One of the three loops of the strata branch: the whole index range of every named
  source, in the order of the names.
\<close>

definition strata_inds :: "WkwData \<Rightarrow> string list \<Rightarrow> error + int list" where
  "strata_inds s ids =
     for_each ids
       (\<lambda>inds ident.
          ebind (datasource_id_to_idx s ident) (\<lambda>idx.
          ebind (py_nth (data_inds_min s) idx) (\<lambda>lo.
          ebind (py_nth (data_inds_max s) idx) (\<lambda>hi.
            Inr (inds @ py_range lo (hi + 1))))))
       []"

text \<open>
  \<^verbatim>\<open>get_data_ind_splits\<close>. \<open>permutation\<close> is \<^verbatim>\<open>np.random.permutation\<close> in the state the
  seeded generator is in at the call; the fractions are Python floats, taken as exact
  reals. \<^verbatim>\<open>list(all_inds_set - combined_inds_set)\<close> is used only when it has one element,
  so its order does not matter.
\<close>

definition get_data_ind_splits :: "(int list \<Rightarrow> int list) \<Rightarrow> WkwData \<Rightarrow> error + WkwData" where
  "get_data_ind_splits permutation s =
     (case data_split s of
        None \<Rightarrow> Inl AttributeError
      | Some (Fractions train validation test) \<Rightarrow>
          ebind (len s) (\<lambda>maxIndex.
            let data_inds_all = py_range 0 maxIndex;
                data_inds_all_rand = permutation data_inds_all;
                train_idx_max = py_int (train * real_of_int maxIndex);
                data_train_inds = py_slice data_inds_all_rand 0 train_idx_max;
                validation_idx_max = train_idx_max + py_int (validation * real_of_int maxIndex);
                data_validation_inds =
                  py_slice data_inds_all_rand train_idx_max validation_idx_max;
                test_idx_max = validation_idx_max + py_int (test * real_of_int maxIndex);
                data_test_inds = py_slice data_inds_all_rand validation_idx_max test_idx_max;
                index_left =
                  filter (\<lambda>i. i \<notin> set (data_train_inds @ data_validation_inds @ data_test_inds))
                    (remdups data_inds_all)
            in ebind (if length index_left = 1 then Inr (data_train_inds @ index_left)
                      else if 1 < length index_left then Inl SplitError
                      else Inr data_train_inds) (\<lambda>data_train_inds.
                 if maxIndex =
                      int (card (set (data_train_inds @ data_validation_inds @ data_test_inds)))
                 then Inr (s\<lparr>data_train_inds := data_train_inds,
                             data_validation_inds := data_validation_inds,
                             data_test_inds := data_test_inds\<rparr>)
                 else Inl AssertionError))
      | Some (Strata train validation test) \<Rightarrow>
          ebind (strata_inds s train) (\<lambda>data_train_inds.
          ebind (strata_inds s validation) (\<lambda>data_validation_inds.
          ebind (strata_inds s test) (\<lambda>data_test_inds.
            Inr (s\<lparr>data_train_inds := data_train_inds,
                    data_validation_inds := data_validation_inds,
                    data_test_inds := data_test_inds\<rparr>)))))"

section \<open>The volumetric store and the caches\<close>

text \<open>
  What lies outside the process. A wkw dataset is a directory with a \<^verbatim>\<open>header.wkw\<close>;
  \<open>datasets\<close> maps the path of such a directory to its voxels, one channel
  (the default of \<^verbatim>\<open>wkw.Header\<close>), zero where nothing was written. \<open>dirs\<close> are the
  other directories that exist, \<open>read_log\<close> the reads made so far, in order, and
  \<open>draws\<close> the number of random draws the transforms have made.
\<close>

type_synonym volume = "int \<Rightarrow> int \<Rightarrow> int \<Rightarrow> real"

record world =
  datasets :: "string \<rightharpoonup> volume"
  dirs :: "string set"
  read_log :: "(string \<times> bbox) list"
  draws :: nat

text \<open>The element \<^verbatim>\<open>a[c, i, j, k]\<close> of a four-dimensional array, indices in range.\<close>

definition at4 :: "'a ndarray \<Rightarrow> nat \<Rightarrow> nat \<Rightarrow> nat \<Rightarrow> nat \<Rightarrow> 'a" where
  "at4 a c i j k =
     elems a ! (((c * (shape a ! 1) + i) * (shape a ! 2) + j) * (shape a ! 3) + k)"

text \<open>The array of shape \<open>(n0, n1, n2, n3)\<close> whose element at \<open>[c, i, j, k]\<close> is \<open>f c i j k\<close>.\<close>

definition build4 ::
  "nat \<Rightarrow> nat \<Rightarrow> nat \<Rightarrow> nat \<Rightarrow> (nat \<Rightarrow> nat \<Rightarrow> nat \<Rightarrow> nat \<Rightarrow> 'a) \<Rightarrow> 'a ndarray" where
  "build4 n0 n1 n2 n3 f =
     \<lparr>shape = [n0, n1, n2, n3],
      elems = concat (map (\<lambda>c. concat (map (\<lambda>i. concat (map (\<lambda>j. map (f c i j) [0..<n3])
                [0..<n2])) [0..<n1])) [0..<n0])\<rparr>"

text \<open>
  \<^verbatim>\<open>wkw_read\<close>: opening a path that holds no dataset fails; the result has the shape
  \<open>(1, ext_x, ext_y, ext_z)\<close>.
\<close>

definition wkw_read :: "world \<Rightarrow> string \<Rightarrow> bbox \<Rightarrow> error + (real ndarray \<times> world)" where
  "wkw_read w wkw_path wkw_bbox =
     (case datasets w wkw_path of
        None \<Rightarrow> Inl StoreError
      | Some v \<Rightarrow>
          (case wkw_bbox of ((px, py, pz), (ex, ey, ez)) \<Rightarrow>
             if ex < 0 \<or> ey < 0 \<or> ez < 0 then Inl ValueError
             else Inr (build4 1 (nat ex) (nat ey) (nat ez)
                         (\<lambda>c i j k. v (px + int i) (py + int j) (pz + int k)),
                       w\<lparr>read_log := read_log w @ [(wkw_path, wkw_bbox)]\<rparr>)))"

text \<open>\<^verbatim>\<open>wkw_write\<close>: the data, of rank 4, replace the voxels from the origin of the box on.\<close>

definition wkw_write :: "world \<Rightarrow> string \<Rightarrow> bbox \<Rightarrow> real ndarray \<Rightarrow> error + world" where
  "wkw_write w wkw_path wkw_bbox data =
     (case datasets w wkw_path of
        None \<Rightarrow> Inl StoreError
      | Some v \<Rightarrow>
          (case wkw_bbox of ((px, py, pz), _) \<Rightarrow>
             if ndim data \<noteq> 4 then Inl ValueError
             else Inr (w\<lparr>datasets := (datasets w)(wkw_path \<mapsto>
                    (\<lambda>x y z. if px \<le> x \<and> x < px + int (shape data ! 1)
                                \<and> py \<le> y \<and> y < py + int (shape data ! 2)
                                \<and> pz \<le> z \<and> z < pz + int (shape data ! 3)
                              then at4 data 0 (nat (x - px)) (nat (y - py)) (nat (z - pz))
                              else v x y z))\<rparr>)))"

text \<open>\<^verbatim>\<open>wkw_header\<close> opens the dataset; the voxel type it returns is not modelled.\<close>

definition wkw_header :: "world \<Rightarrow> string \<Rightarrow> error + unit" where
  "wkw_header w wkw_path = (case datasets w wkw_path of None \<Rightarrow> Inl StoreError | Some v \<Rightarrow> Inr ())"

definition wkw_create :: "world \<Rightarrow> string \<Rightarrow> world" where
  "wkw_create w wkw_path = w\<lparr>datasets := (datasets w)(wkw_path \<mapsto> (\<lambda>x y z. 0))\<rparr>"

text \<open>
  \<^verbatim>\<open>os.path.join(a, b)\<close> and the two tests of existence:
  \<^verbatim>\<open>os.path.exists(os.path.join(p, 'header.wkw'))\<close> holds when \<open>p\<close> is a dataset.
\<close>

definition os_path_join :: "string \<Rightarrow> string \<Rightarrow> string" where
  "os_path_join a b =
     (if b \<noteq> [] \<and> hd b = CHR ''/'' then b
      else if a = [] \<or> last a = CHR ''/'' then a @ b
      else a @ ''/'' @ b)"

definition header_exists :: "world \<Rightarrow> string \<Rightarrow> bool" where
  "header_exists w p = (datasets w p \<noteq> None)"

definition path_exists :: "world \<Rightarrow> string \<Rightarrow> bool" where
  "path_exists w p = (p \<in> dirs w \<or> datasets w p \<noteq> None)"

text \<open>\<^verbatim>\<open>str(bbox)\<close> of a list of six integers, the key of the memory cache.\<close>

fun str_nat :: "nat \<Rightarrow> string" where
  "str_nat n =
     (if n < 10 then [char_of (48 + n)] else str_nat (n div 10) @ [char_of (48 + n mod 10)])"

declare str_nat.simps [simp del]

definition str_int :: "int \<Rightarrow> string" where
  "str_int i = (if i < 0 then ''-'' @ str_nat (nat (- i)) else str_nat (nat i))"

definition str_bbox :: "bbox \<Rightarrow> string" where
  "str_bbox b =
     (case b of ((px, py, pz), (ex, ey, ez)) \<Rightarrow>
        ''['' @ str_int px @ '', '' @ str_int py @ '', '' @ str_int pz @ '', ''
          @ str_int ex @ '', '' @ str_int ey @ '', '' @ str_int ez @ '']'')"

text \<open>
  \<^verbatim>\<open>np.any\<close> of the slice of a rank 4 array that fixes the index on axis 1, 2 or 3.
\<close>

definition any_face1 :: "real ndarray \<Rightarrow> nat \<Rightarrow> bool" where
  "any_face1 a i =
     list_ex (\<lambda>c. list_ex (\<lambda>j. list_ex (\<lambda>k. at4 a c i j k \<noteq> 0)
       [0..<shape a ! 3]) [0..<shape a ! 2]) [0..<shape a ! 0]"

definition any_face2 :: "real ndarray \<Rightarrow> nat \<Rightarrow> bool" where
  "any_face2 a j =
     list_ex (\<lambda>c. list_ex (\<lambda>i. list_ex (\<lambda>k. at4 a c i j k \<noteq> 0)
       [0..<shape a ! 3]) [0..<shape a ! 1]) [0..<shape a ! 0]"

definition any_face3 :: "real ndarray \<Rightarrow> nat \<Rightarrow> bool" where
  "any_face3 a k =
     list_ex (\<lambda>c. list_ex (\<lambda>i. list_ex (\<lambda>j. at4 a c i j k \<noteq> 0)
       [0..<shape a ! 2]) [0..<shape a ! 1]) [0..<shape a ! 0]"

text \<open>
  \<^verbatim>\<open>assert_data_completeness\<close>. The six tests are joined by \<^verbatim>\<open>&\<close>, so all are evaluated;
  indexing position 0 or -1 of an axis of length 0 raises, as do four indices on an array
  of lower rank. \<^verbatim>\<open>wkw_read\<close> returns rank 4, and no other rank is modelled.
\<close>

definition assert_data_completeness :: "real ndarray \<Rightarrow> error + bool" where
  "assert_data_completeness data =
     (if ndim data \<noteq> 4 \<or> shape data ! 1 = 0 \<or> shape data ! 2 = 0 \<or> shape data ! 3 = 0
      then Inl IndexError
      else Inr (any_face1 data 0 \<and> any_face1 data (shape data ! 1 - 1)
              \<and> any_face2 data 0 \<and> any_face2 data (shape data ! 2 - 1)
              \<and> any_face3 data 0 \<and> any_face3 data (shape data ! 3 - 1)))"

definition fill_cache :: "WkwData \<Rightarrow> world \<Rightarrow> string \<Rightarrow> bbox \<Rightarrow> error + (WkwData \<times> world)" where
  "fill_cache s w wkw_path wkw_bbox =
     (let wkw_cache_path = os_path_join (cache_HDD_root s) (drop 1 wkw_path) in
      ebind (if cache_HDD s \<and> header_exists w wkw_cache_path
             then ebind (wkw_read w wkw_cache_path wkw_bbox) (\<lambda>(data, w1).
                  ebind (assert_data_completeness data) (\<lambda>complete.
                    if \<not> complete then wkw_read w1 wkw_path wkw_bbox else Inr (data, w1)))
             else wkw_read w wkw_path wkw_bbox) (\<lambda>(data, w2).
        let s1 = (if cache_RAM s
                  then s\<lparr>data_cache_input := (data_cache_input s)(wkw_path \<mapsto>
                         (case data_cache_input s wkw_path of
                            None \<Rightarrow> [str_bbox wkw_bbox \<mapsto> data]
                          | Some m \<Rightarrow> m(str_bbox wkw_bbox \<mapsto> data)))\<rparr>
                  else s)
        in if cache_HDD s
           then let w3 = (if \<not> path_exists w2 wkw_cache_path
                          then w2\<lparr>dirs := insert wkw_cache_path (dirs w2)\<rparr> else w2)
                in ebind (if \<not> header_exists w3 wkw_cache_path
                          then ebind (wkw_header w3 wkw_path) (\<lambda>_. Inr (wkw_create w3 wkw_cache_path))
                          else Inr w3) (\<lambda>w4.
                   ebind (wkw_write w4 wkw_cache_path wkw_bbox data) (\<lambda>w5. Inr (s1, w5)))
           else Inr (s1, w2)))"

definition fill_caches :: "WkwData \<Rightarrow> world \<Rightarrow> error + (WkwData \<times> world)" where
  "fill_caches s w =
     for_each (data_sources s)
       (\<lambda>(s', w') data_source.
          ebind (fill_cache s' w' (input_path data_source) (input_bbox data_source)) (\<lambda>(s'', w'').
            fill_cache s'' w'' (target_path data_source) (target_bbox data_source)))
       (s, w)"

text \<open>
  The slice \<^verbatim>\<open>a[:, r0:r0+e0, r1:r1+e1, r2:r2+e2]\<close> of a rank 4 array, with the bounds of
  each axis handled as Python slices are.
\<close>

definition slice4 :: "'a ndarray \<Rightarrow> vec3 \<Rightarrow> vec3 \<Rightarrow> error + 'a ndarray" where
  "slice4 a rel ext =
     (if ndim a \<noteq> 4 then Inl IndexError
      else case (rel, ext) of ((r0, r1, r2), (e0, e1, e2)) \<Rightarrow>
        let lo1 = py_clip (shape a ! 1) r0; hi1 = py_clip (shape a ! 1) (r0 + e0);
            lo2 = py_clip (shape a ! 2) r1; hi2 = py_clip (shape a ! 2) (r1 + e1);
            lo3 = py_clip (shape a ! 3) r2; hi3 = py_clip (shape a ! 3) (r2 + e2)
        in Inr (build4 (shape a ! 0) (hi1 - lo1) (hi2 - lo2) (hi3 - lo3)
                  (\<lambda>c i j k. at4 a c (lo1 + i) (lo2 + j) (lo3 + k))))"

text \<open>
  \<^verbatim>\<open>wkw_read_cached\<close>. The test of the memory cache joins its two operands by \<^verbatim>\<open>&\<close>, which
  evaluates both: \<^verbatim>\<open>self.data_cache_input[wkw_path]\<close> raises \<^verbatim>\<open>KeyError\<close> for a path that is
  not a key, whatever the left operand is.
\<close>

definition wkw_read_cached ::
  "WkwData \<Rightarrow> world \<Rightarrow> nat \<Rightarrow> sample_type \<Rightarrow> bbox \<Rightarrow> error + (real ndarray \<times> world)" where
  "wkw_read_cached s w source_idx source_type wkw_bbox =
     ebind (py_nth (data_sources s) source_idx) (\<lambda>src.
       let wkw_path = (case source_type of Input \<Rightarrow> input_path src | Target \<Rightarrow> target_path src);
           abs_pos = (case source_type of Input \<Rightarrow> input_bbox src | Target \<Rightarrow> target_bbox src)
       in case data_cache_input s wkw_path of
            None \<Rightarrow> Inl KeyError
          | Some m \<Rightarrow>
              (case m (str_bbox abs_pos) of
                 Some cube \<Rightarrow>
                   (case (wkw_bbox, abs_pos) of (((bx, by, bz), ext), ((ax, ay, az), _)) \<Rightarrow>
                      ebind (slice4 cube (bx - ax, by - ay, bz - az) ext) (\<lambda>data. Inr (data, w)))
               | None \<Rightarrow>
                   (let wkw_cache_path = os_path_join (cache_HDD_root s) (drop 1 wkw_path)
                    in if header_exists w wkw_cache_path
                       then wkw_read w wkw_cache_path wkw_bbox
                       else wkw_read w wkw_path wkw_bbox)))"

section \<open>Samples\<close>

definition get_bbox_for_sample_idx ::
  "WkwData \<Rightarrow> int \<Rightarrow> sample_type \<Rightarrow> error + (nat \<times> bbox)" where
  "get_bbox_for_sample_idx s sample_idx sample_type =
     ebind (get_source_mesh_for_sample_idx s sample_idx) (\<lambda>(source_idx, mesh_inds).
       let shp = (case sample_type of Input \<Rightarrow> input_shape s | Target \<Rightarrow> output_shape s) in
       ebind (py_nth (data_meshes s) source_idx) (\<lambda>mp.
         let m = (case sample_type of Input \<Rightarrow> mesh_input mp | Target \<Rightarrow> mesh_target mp) in
         case (mesh_inds, shp) of
           ([i, j, k], (w0, w1, w2)) \<Rightarrow>
             Inr (source_idx,
                  ((at3 (mesh_x m) i j k - w0 div 2,
                    at3 (mesh_y m) i j k - w1 div 2,
                    at3 (mesh_z m) i j k - w2 div 2), shp))
         | _ \<Rightarrow> Inl IndexError))"

text \<open>
  \<^verbatim>\<open>WkwData.normalize\<close>, element by element. A zero \<open>std\<close> gives \<open>inf\<close> or \<open>nan\<close> in numpy
  and no exception; the reals have neither, and no statement below depends on that case.
\<close>

definition normalize_data :: "real ndarray \<Rightarrow> real \<Rightarrow> real \<Rightarrow> real ndarray" where
  "normalize_data data mean std = data\<lparr>elems := map (\<lambda>v. (v - mean) / std) (elems data)\<rparr>"

text \<open>
  The guarded \<^verbatim>\<open>squeeze(3)\<close>: \<^verbatim>\<open>if shape[2] == 1 and t.dim() > 3 and t.shape[3] == 1\<close>,
  for the configured depth \<open>d\<close>.
\<close>

definition squeeze_depth :: "int \<Rightarrow> 'a ndarray \<Rightarrow> 'a ndarray" where
  "squeeze_depth d t =
     (if d = 1 \<and> 3 < ndim t \<and> shape t ! 3 = 1
      then t\<lparr>shape := take 3 (shape t) @ drop 4 (shape t)\<rparr> else t)"

text \<open>The array of shape \<open>(n0, n1, n2)\<close> whose element at \<open>[i, j, k]\<close> is \<open>f i j k\<close>.\<close>

definition build3 :: "nat \<Rightarrow> nat \<Rightarrow> nat \<Rightarrow> (nat \<Rightarrow> nat \<Rightarrow> nat \<Rightarrow> 'a) \<Rightarrow> 'a ndarray" where
  "build3 n0 n1 n2 f =
     \<lparr>shape = [n0, n1, n2],
      elems = concat (map (\<lambda>i. concat (map (\<lambda>j. map (f i j) [0..<n2]) [0..<n1])) [0..<n0])\<rparr>"

text \<open>
  \<^verbatim>\<open>np.pad(a, ((p0, p0), (p1, p1), (p2, p2)), 'constant')\<close>. numpy takes one pair of widths
  for each axis of the array: it broadcasts the widths to the shape \<open>(a.ndim, 2)\<close>, which
  three pairs allow for rank 3 only, and it rejects a negative width; both are a
  \<^verbatim>\<open>ValueError\<close>.
\<close>

definition np_pad3 :: "real ndarray \<Rightarrow> vec3 \<Rightarrow> error + real ndarray" where
  "np_pad3 a widths =
     (case widths of (p0, p1, p2) \<Rightarrow>
        if p0 < 0 \<or> p1 < 0 \<or> p2 < 0 then Inl ValueError
        else if ndim a \<noteq> 3 then Inl ValueError
        else Inr (build3 (shape a ! 0 + 2 * nat p0) (shape a ! 1 + 2 * nat p1)
                    (shape a ! 2 + 2 * nat p2)
                    (\<lambda>i j k. if nat p0 \<le> i \<and> i < nat p0 + shape a ! 0
                                \<and> nat p1 \<le> j \<and> j < nat p1 + shape a ! 1
                                \<and> nat p2 \<le> k \<and> k < nat p2 + shape a ! 2
                              then at3 a (i - nat p0) (j - nat p1) (k - nat p2) else 0)))"

definition pad :: "WkwData \<Rightarrow> real ndarray \<Rightarrow> error + real ndarray" where
  "pad s target =
     (case (input_shape s, output_shape s) of ((i0, i1, i2), (o0, o1, o2)) \<Rightarrow>
        np_pad3 target ((i0 - o0) div 2, (i1 - o1) div 2, (i2 - o2) div 2))"

text \<open>The sample \<^verbatim>\<open>{'input': input_, 'target': target, 'sample_idx': sample_idx}\<close>.\<close>

record sample =
  sample_input :: "real ndarray"
  sample_target :: "real ndarray"
  sample_index :: int

text \<open>A call of \<^verbatim>\<open>self.transforms\<close>: it uses the next random draw.\<close>

definition apply_transforms ::
  "(nat \<Rightarrow> real ndarray \<Rightarrow> real ndarray) \<Rightarrow> world \<Rightarrow> real ndarray \<Rightarrow> real ndarray \<times> world" where
  "apply_transforms f w t = (f (draws w) t, w\<lparr>draws := Suc (draws w)\<rparr>)"

text \<open>
  \<^verbatim>\<open>get_ordered_sample\<close>. \<^verbatim>\<open>torch.from_numpy(...).float()\<close> keeps the values (the rounding to
  single precision is not modelled), \<^verbatim>\<open>.long()\<close> truncates them. In the branch that
  reuses the input, \<^verbatim>\<open>np.asarray(input_)\<close> (here \<open>input_t\<close>) is taken after the input was normalized,
  squeezed and transformed.
\<close>

definition get_ordered_sample ::
  "WkwData \<Rightarrow> world \<Rightarrow> int \<Rightarrow> bool option \<Rightarrow> error + (sample \<times> world)" where
  "get_ordered_sample s w sample_idx normalize' =
     (let normalize_arg = (case normalize' of None \<Rightarrow> normalize_opt s | Some b \<Rightarrow> b) in
      ebind (get_bbox_for_sample_idx s sample_idx Input) (\<lambda>(source_idx, bbox_input).
      ebind (if cache_RAM s \<or> cache_HDD s
             then wkw_read_cached s w source_idx Input bbox_input
             else ebind (py_nth (data_sources s) source_idx) (\<lambda>src.
                    wkw_read w (input_path src) bbox_input)) (\<lambda>(input0, w1).
      ebind (if normalize_arg
             then ebind (py_nth (data_sources s) source_idx) (\<lambda>src.
                    Inr (normalize_data input0 (input_mean src) (input_std src)))
             else Inr input0) (\<lambda>input1.
        let input2 = squeeze_depth (snd (snd (input_shape s))) input1;
            (input_t, w2) = (case transforms s of
                              Some f \<Rightarrow> if sample_idx \<in> set (data_train_inds s)
                                        then apply_transforms f w1 input2 else (input2, w1)
                            | None \<Rightarrow> (input2, w1))
        in
      ebind (get_bbox_for_sample_idx s sample_idx Target) (\<lambda>(source_idx, bbox_target).
      ebind (py_nth (data_sources s) source_idx) (\<lambda>src.
      ebind (if target_binary src = 1 then Inr (target_class src, False, w2)
             else if input_path src = target_path src \<and> bbox_input = bbox_target
                  then Inr (input_t, True, w2)
             else ebind (if cache_RAM s \<or> cache_HDD s
                         then wkw_read_cached s w2 source_idx Target bbox_target
                         else wkw_read w2 (target_path src) bbox_target) (\<lambda>(t, w3).
                    Inr (t, False, w3))) (\<lambda>(target0, inputSameAsOutput, w3).
      ebind (if pad_target s then pad s target0 else Inr target0) (\<lambda>target1.
        let (target, w4) =
              (if target_binary src = 1
               then (target1\<lparr>elems := map (\<lambda>v. real_of_int (py_int v)) (elems target1)\<rparr>, w3)
               else let target2 = squeeze_depth (snd (snd (output_shape s))) target1
                    in (case transforms s of
                          Some f \<Rightarrow> if \<not> inputSameAsOutput
                                    then apply_transforms f w3 target2 else (target2, w3)
                        | None \<Rightarrow> (target2, w3)))
        in Inr (\<lparr>sample_input = input_t, sample_target = target, sample_index = sample_idx\<rparr>,
                w4)))))))))"

section \<open>Construction\<close>

text \<open>
  \<^verbatim>\<open>__init__\<close>: the attributes are set, then the meshes and the index ranges are computed,
  the splits when a split is given, and the caches are filled when one of them is enabled.
\<close>

definition WkwData_init ::
  "(int list \<Rightarrow> int list) \<Rightarrow> world \<Rightarrow> vec3 \<Rightarrow> vec3 \<Rightarrow> source list \<Rightarrow> DataSplit option
     \<Rightarrow> vec3 option \<Rightarrow> bool \<Rightarrow> (nat \<Rightarrow> real ndarray \<Rightarrow> real ndarray) option \<Rightarrow> bool \<Rightarrow> bool
     \<Rightarrow> bool \<Rightarrow> string option \<Rightarrow> error + (WkwData \<times> world)" where
  "WkwData_init permutation w input_shape' target_shape data_sources' data_split' stride'
       normalize' transforms' pad_target' cache_RAM' cache_HDD' cache_HDD_root' =
     (let s0 = \<lparr>input_shape = input_shape', output_shape = target_shape,
                data_sources = data_sources', data_split = data_split',
                stride = (case stride' of None \<Rightarrow> target_shape | Some st \<Rightarrow> st),
                normalize_opt = normalize', transforms = transforms',
                pad_target = pad_target', cache_RAM = cache_RAM', cache_HDD = cache_HDD',
                cache_HDD_root = (case cache_HDD_root' of None \<Rightarrow> ''.'' | Some r \<Rightarrow> r),
                data_cache_input = Map.empty, data_meshes = [],
                data_inds_min = [], data_inds_max = [],
                data_train_inds = [], data_validation_inds = [], data_test_inds = []\<rparr>
      in ebind (get_data_meshes s0) (\<lambda>s1.
         ebind (get_data_ind_ranges s1) (\<lambda>s2.
         ebind (if data_split' \<noteq> None then get_data_ind_splits permutation s2 else Inr s2) (\<lambda>s3.
           if cache_RAM' \<or> cache_HDD' then fill_caches s3 w else Inr (s3, w)))))"

section \<open>The descriptor registry\<close>

text \<open>
  The values a descriptor field can hold: the JSON values, and the class \<^verbatim>\<open>str\<close>, which
  is the default of the field \<^verbatim>\<open>id\<close>. \<open>py_eq\<close> is Python's \<^verbatim>\<open>==\<close> on them: booleans,
  integers and floats compare by their number, lists element by element. The float
  \<open>nan\<close>, which is not equal to itself, is not among the values.
\<close>

datatype pyval =
    PNone | PBool bool | PInt int | PFloat real | PStr string | PList "pyval list" | PStrType

definition py_num :: "pyval \<Rightarrow> real option" where
  "py_num v =
     (case v of PBool b \<Rightarrow> Some (if b then 1 else 0) | PInt i \<Rightarrow> Some (real_of_int i)
      | PFloat r \<Rightarrow> Some r | _ \<Rightarrow> None)"

primrec py_eq :: "pyval \<Rightarrow> pyval \<Rightarrow> bool" where
  "py_eq PNone b = (b = PNone)"
| "py_eq (PBool x) b = (py_num b = Some (if x then 1 else 0))"
| "py_eq (PInt i) b = (py_num b = Some (real_of_int i))"
| "py_eq (PFloat r) b = (py_num b = Some r)"
| "py_eq (PStr s) b = (b = PStr s)"
| "py_eq (PList xs) b =
     (case b of PList ys \<Rightarrow> list_all2 (\<lambda>f y. f y) (map py_eq xs) ys | _ \<Rightarrow> False)"
| "py_eq PStrType b = (b = PStrType)"

text \<open>What \<^verbatim>\<open>json.dump\<close> can write: everything but the class.\<close>

primrec json_ok :: "pyval \<Rightarrow> bool" where
  "json_ok PNone = True"
| "json_ok (PBool x) = True"
| "json_ok (PInt i) = True"
| "json_ok (PFloat r) = True"
| "json_ok (PStr s) = True"
| "json_ok (PList xs) = list_all (\<lambda>b. b) (map json_ok xs)"
| "json_ok PStrType = False"

type_synonym py_source = "(pyval, pyval, pyval, pyval, pyval, pyval) DataSource"

text \<open>
  A Python \<^verbatim>\<open>dict\<close> keeps its keys in the order of their first insertion:
  \<^verbatim>\<open>d[k] = v\<close>, \<^verbatim>\<open>d.pop(k, None)\<close> and \<^verbatim>\<open>d.update(e)\<close>.
\<close>

type_synonym 'v dict = "(string \<times> 'v) list"

fun dict_set :: "'v dict \<Rightarrow> string \<Rightarrow> 'v \<Rightarrow> 'v dict" where
  "dict_set [] k v = [(k, v)]"
| "dict_set ((k', v') # d) k v = (if k' = k then (k, v) # d else (k', v') # dict_set d k v)"

definition dict_pop :: "'v dict \<Rightarrow> string \<Rightarrow> 'v dict" where
  "dict_pop d k = filter (\<lambda>kv. fst kv \<noteq> k) d"

definition dict_update :: "'v dict \<Rightarrow> 'v dict \<Rightarrow> 'v dict" where
  "dict_update d e = foldl (\<lambda>acc kv. dict_set acc (fst kv) (snd kv)) d e"

definition dict_get :: "'v dict \<Rightarrow> string \<Rightarrow> error + 'v" where
  "dict_get d k = (case map_of d k of None \<Rightarrow> Inl KeyError | Some v \<Rightarrow> Inr v)"

text \<open>A list comprehension whose element may raise.\<close>

fun map_err :: "('a \<Rightarrow> error + 'b) \<Rightarrow> 'a list \<Rightarrow> error + 'b list" where
  "map_err f [] = Inr []"
| "map_err f (x # xs) = ebind (f x) (\<lambda>y. ebind (map_err f xs) (\<lambda>ys. Inr (y # ys)))"

text \<open>\<^verbatim>\<open>d._asdict()\<close> and \<^verbatim>\<open>DataSource(**kwargs)\<close> with the defaults of \<^verbatim>\<open>DataSourceDefaults\<close>.\<close>

definition field_names :: "string list" where
  "field_names = [''id'', ''input_path'', ''input_bbox'', ''input_mean'', ''input_std'',
                  ''target_path'', ''target_bbox'', ''target_class'', ''target_binary'']"

definition asdict :: "py_source \<Rightarrow> pyval dict" where
  "asdict d =
     [(''id'', ds_id d), (''input_path'', input_path d), (''input_bbox'', input_bbox d),
      (''input_mean'', input_mean d), (''input_std'', input_std d),
      (''target_path'', target_path d), (''target_bbox'', target_bbox d),
      (''target_class'', target_class d), (''target_binary'', target_binary d)]"

definition kwarg :: "pyval dict \<Rightarrow> string \<Rightarrow> pyval \<Rightarrow> pyval" where
  "kwarg kw k dflt = (case map_of kw k of None \<Rightarrow> dflt | Some v \<Rightarrow> v)"

definition DataSource_new :: "pyval dict \<Rightarrow> error + py_source" where
  "DataSource_new kw =
     (if \<exists>k \<in> set (map fst kw). k \<notin> set field_names then Inl TypeError
      else Inr \<lparr>ds_id = kwarg kw ''id'' PStrType,
                input_path = kwarg kw ''input_path'' (PStr ''NaN''),
                input_bbox = kwarg kw ''input_bbox'' (PStr ''NaN''),
                input_mean = kwarg kw ''input_mean'' (PStr ''NaN''),
                input_std = kwarg kw ''input_std'' (PStr ''NaN''),
                target_path = kwarg kw ''target_path'' (PStr ''NaN''),
                target_bbox = kwarg kw ''target_bbox'' (PStr ''NaN''),
                target_class = kwarg kw ''target_class'' (PStr ''NaN''),
                target_binary = kwarg kw ''target_binary'' (PStr ''NaN'')\<rparr>)"

text \<open>
  \<^verbatim>\<open>convert_ds_to_dict\<close>: \<^verbatim>\<open>{f'datasource_{d.id}': d._asdict() for d in datasources}\<close>.
  \<open>fmt\<close> is the text the f-string makes of an id.
\<close>

definition convert_ds_to_dict :: "(pyval \<Rightarrow> string) \<Rightarrow> py_source list \<Rightarrow> pyval dict dict" where
  "convert_ds_to_dict fmt datasources =
     foldl (\<lambda>acc d. dict_set acc (''datasource_'' @ fmt (ds_id d)) (asdict d)) [] datasources"

definition convert_ds_to_list :: "pyval dict dict \<Rightarrow> error + py_source list" where
  "convert_ds_to_list datasources_dict = map_err DataSource_new (map snd datasources_dict)"

text \<open>
  \<^verbatim>\<open>ds_find_shared_properties\<close>. \<open>list_all_dict\<close> (\<^verbatim>\<open>list_all\<close> in the source) holds, for each field of the first entry, the
  values of that field over all entries, in their order; a field is shared when the
  first value is \<^verbatim>\<open>==\<close> to all the others.
\<close>

definition ds_find_shared_properties ::
  "(pyval \<Rightarrow> string) \<Rightarrow> py_source list \<Rightarrow> error + pyval dict" where
  "ds_find_shared_properties fmt sources =
     (let long_ds_dict = convert_ds_to_dict fmt sources in
      case long_ds_dict of
        [] \<Rightarrow> Inl IndexError
      | first_ds # _ \<Rightarrow>
          (let per_ds_keys = map fst (snd first_ds) in
           ebind (map_err (\<lambda>per_key.
                    ebind (map_err (\<lambda>cur_ds. dict_get (snd cur_ds) per_key) long_ds_dict)
                      (\<lambda>vals. Inr (per_key, vals))) per_ds_keys) (\<lambda>list_all_dict.
             for_each list_all_dict
               (\<lambda>shared_prop (key, cur_elem_list).
                  case cur_elem_list of
                    [] \<Rightarrow> Inl ValueError
                  | first # others \<Rightarrow>
                      Inr (if list_all (py_eq first) others
                           then dict_set shared_prop key first else shared_prop))
               [])))"

text \<open>The argument \<^verbatim>\<open>Union[dict, list]\<close> of the two functions that write.\<close>

datatype ds_arg = DsList "py_source list" | DsDict "pyval dict dict"

definition convert_to_short_ds :: "(pyval \<Rightarrow> string) \<Rightarrow> ds_arg \<Rightarrow> error + pyval dict dict" where
  "convert_to_short_ds fmt sources =
     (case sources of
        DsDict d \<Rightarrow>
          if ''shared_properties'' \<in> set (map fst d) then Inr d else Inl AssertionError
      | DsList l \<Rightarrow>
          ebind (ds_find_shared_properties fmt l) (\<lambda>shared_properties.
            let ds_dict = convert_ds_to_dict fmt l;
                key2remove_list = map fst shared_properties;
                ds_dict = map (\<lambda>(ds_key, ds). (ds_key, foldl dict_pop ds key2remove_list)) ds_dict
            in Inr (foldl (\<lambda>acc kv. dict_set acc (fst kv) (snd kv))
                      [(''shared_properties'', shared_properties)] ds_dict)))"

text \<open>
  \<^verbatim>\<open>json.dump\<close> followed by \<^verbatim>\<open>json.load\<close> gives the dictionary back when every value in it
  can be written, and \<^verbatim>\<open>json.dump\<close> raises otherwise. \<open>write_short_ds_json\<close> returns
  what the file then holds, \<open>read_short_ds_json\<close> takes it.
\<close>

definition json_dump :: "pyval dict dict \<Rightarrow> error + pyval dict dict" where
  "json_dump d =
     (if list_all (\<lambda>kv. list_all (\<lambda>fv. json_ok (snd fv)) (snd kv)) d then Inr d
      else Inl TypeError)"

definition write_short_ds_json ::
  "(pyval \<Rightarrow> string) \<Rightarrow> ds_arg \<Rightarrow> bool \<Rightarrow> error + pyval dict dict" where
  "write_short_ds_json fmt datasources convert_to_short =
     ebind (if convert_to_short
            then ebind (convert_to_short_ds fmt datasources) (\<lambda>d. Inr (DsDict d))
            else Inr datasources) (\<lambda>datasources.
       json_dump (case datasources of DsList l \<Rightarrow> convert_ds_to_dict fmt l | DsDict d \<Rightarrow> d))"

text \<open>\<^verbatim>\<open>'datasource_' in key\<close>: the text occurs somewhere in the key.\<close>

fun py_in_str :: "string \<Rightarrow> string \<Rightarrow> bool" where
  "py_in_str sub [] = (sub = [])"
| "py_in_str sub (c # cs) = (take (length sub) (c # cs) = sub \<or> py_in_str sub cs)"

definition read_short_ds_json :: "pyval dict dict \<Rightarrow> error + py_source list" where
  "read_short_ds_json ds_dict =
     ebind (case map_of ds_dict ''shared_properties'' of
              Some shared \<Rightarrow>
                (let ds_keys = filter (\<lambda>k. k \<noteq> ''shared_properties'') (map fst ds_dict) in
                 if \<not> list_all (py_in_str ''datasource_'') ds_keys then Inl AssertionError
                 else Inr (dict_pop
                             (map (\<lambda>(key, ds). if key \<in> set ds_keys
                                                then (key, dict_update ds shared) else (key, ds))
                                ds_dict)
                             ''shared_properties''))
            | None \<Rightarrow> Inr ds_dict) convert_ds_to_list"

section \<open>Notions used in the statements\<close>


text \<open>
  The index ranges in closed form: the number of grid cells of source \<open>i\<close>, the sum of
  those before it, and the last index it owns.
\<close>

definition cells :: "mesh_pair list \<Rightarrow> nat \<Rightarrow> int" where
  "cells ms i = int (nd_size (mesh_x (mesh_target (ms ! i))))"

fun range_lo :: "mesh_pair list \<Rightarrow> nat \<Rightarrow> int" where
  "range_lo ms 0 = 0"
| "range_lo ms (Suc i) = range_lo ms i + cells ms i"

definition range_hi :: "mesh_pair list \<Rightarrow> nat \<Rightarrow> int" where
  "range_hi ms i = range_lo ms i + cells ms i - 1"

text \<open>The mesh that \<open>get_data_mesh\<close> returns for source \<open>i\<close>, for use where it does return.\<close>

definition no_mesh :: mesh_pair where
  "no_mesh =
     (let e = \<lparr>shape = [0, 0, 0], elems = []\<rparr>; m = \<lparr>mesh_x = e, mesh_y = e, mesh_z = e\<rparr>
      in \<lparr>mesh_input = m, mesh_target = m\<rparr>)"

definition mesh_of :: "WkwData \<Rightarrow> nat \<Rightarrow> mesh_pair" where
  "mesh_of s i = (case get_data_mesh s i of Inr m \<Rightarrow> m | Inl e \<Rightarrow> no_mesh)"

text \<open>The path of a source in one of its two roles.\<close>

definition source_path :: "source \<Rightarrow> sample_type \<Rightarrow> string" where
  "source_path src t = (case t of Input \<Rightarrow> input_path src | Target \<Rightarrow> target_path src)"

text \<open>The state of a dataset of the sources \<open>srcs\<close> whose memory cache is switched off and empty.\<close>

definition ram_off :: "source list \<Rightarrow> WkwData \<Rightarrow> bool" where
  "ram_off srcs s \<longleftrightarrow> data_sources s = srcs \<and> \<not> cache_RAM s \<and> data_cache_input s = Map.empty"

text \<open>What a read of the box \<open>b\<close> returns from a dataset with the voxels \<open>v\<close>.\<close>

definition cube :: "volume \<Rightarrow> bbox \<Rightarrow> real ndarray" where
  "cube v b =
     (case b of ((px, py, pz), (ex, ey, ez)) \<Rightarrow>
        build4 1 (nat ex) (nat ey) (nat ez) (\<lambda>c i j k. v (px + int i) (py + int j) (pz + int k)))"

text \<open>Some voxel with index \<open>idx\<close> on the spatial axis \<open>axis\<close> (1, 2 or 3) is not zero.\<close>

definition face_nonzero :: "real ndarray \<Rightarrow> nat \<Rightarrow> nat \<Rightarrow> bool" where
  "face_nonzero a axis idx \<longleftrightarrow>
     (\<exists>c < shape a ! 0. \<exists>i < shape a ! 1. \<exists>j < shape a ! 2. \<exists>k < shape a ! 3.
        [i, j, k] ! (axis - 1) = idx \<and> at4 a c i j k \<noteq> 0)"

text \<open>Each of the six bounding faces holds a voxel that is not zero.\<close>

definition six_faces_nonzero :: "real ndarray \<Rightarrow> bool" where
  "six_faces_nonzero a \<longleftrightarrow>
     face_nonzero a 1 0 \<and> face_nonzero a 1 (shape a ! 1 - 1)
   \<and> face_nonzero a 2 0 \<and> face_nonzero a 2 (shape a ! 2 - 1)
   \<and> face_nonzero a 3 0 \<and> face_nonzero a 3 (shape a ! 3 - 1)"

text \<open>The cube the memory cache holds for a path and a box, if any.\<close>

definition cached_entry :: "WkwData \<Rightarrow> string \<Rightarrow> bbox \<Rightarrow> real ndarray option" where
  "cached_entry s p b = (case data_cache_input s p of None \<Rightarrow> None | Some m \<Rightarrow> m (str_bbox b))"

section \<open>Example data\<close>

definition demo_source :: "string \<Rightarrow> string \<Rightarrow> bbox \<Rightarrow> source" where
  "demo_source ident path box =
     \<lparr>ds_id = ident, input_path = path, input_bbox = box, input_mean = 0, input_std = 1,
      target_path = path, target_bbox = box, target_class = \<lparr>shape = [], elems = [0]\<rparr>,
      target_binary = 0\<rparr>"

text \<open>The attributes as \<^verbatim>\<open>__init__\<close> sets them, before any mesh is computed; no cache, no split.\<close>

definition demo_config :: "vec3 \<Rightarrow> source list \<Rightarrow> WkwData" where
  "demo_config window srcs =
     \<lparr>input_shape = window, output_shape = window, data_sources = srcs, data_split = None,
      stride = window, normalize_opt = False, transforms = None, pad_target = False,
      cache_RAM = False, cache_HDD = False, cache_HDD_root = ''.'',
      data_cache_input = Map.empty, data_meshes = [], data_inds_min = [], data_inds_max = [],
      data_train_inds = [], data_validation_inds = [], data_test_inds = []\<rparr>"

definition empty_world :: world where
  "empty_world = \<lparr>datasets = Map.empty, dirs = {}, read_log = [], draws = 0\<rparr>"

text \<open>
  A source of extent \<open>(1, 4, 1)\<close> under a window of \<open>(2, 2, 1)\<close>, as construction leaves it:
  no \<open>x\<close> coordinate, a grid of shape \<open>(2, 0, 1)\<close>, the index range \<open>[0, -1]\<close>.
\<close>

definition small_extent_dataset :: WkwData where
  "small_extent_dataset =
     (let e = \<lparr>shape = [2, 0, 1], elems = []\<rparr>; m = \<lparr>mesh_x = e, mesh_y = e, mesh_z = e\<rparr>
      in (demo_config (2, 2, 1) [demo_source ''1'' ''/a'' ((0, 0, 0), (1, 4, 1))])
           \<lparr>data_meshes := [\<lparr>mesh_input = m, mesh_target = m\<rparr>],
            data_inds_min := [0], data_inds_max := [- 1]\<rparr>)"

text \<open>
  Two sources of extents \<open>(4, 4, 1)\<close> and \<open>(2, 6, 1)\<close> under a window of \<open>(2, 2, 1)\<close>, with
  the meshes \<open>get_data_meshes\<close> computes for them: four cells and three.
\<close>

definition two_grids :: WkwData where
  "two_grids =
     (let ma = \<lparr>mesh_x = \<lparr>shape = [2, 2, 1], elems = [1, 3, 1, 3]\<rparr>,
                mesh_y = \<lparr>shape = [2, 2, 1], elems = [1, 1, 3, 3]\<rparr>,
                mesh_z = \<lparr>shape = [2, 2, 1], elems = [0, 0, 0, 0]\<rparr>\<rparr>;
          mb = \<lparr>mesh_x = \<lparr>shape = [3, 1, 1], elems = [11, 11, 11]\<rparr>,
                mesh_y = \<lparr>shape = [3, 1, 1], elems = [1, 3, 5]\<rparr>,
                mesh_z = \<lparr>shape = [3, 1, 1], elems = [0, 0, 0]\<rparr>\<rparr>
      in (demo_config (2, 2, 1) [demo_source ''1'' ''/a'' ((0, 0, 0), (4, 4, 1)),
                                 demo_source ''2'' ''/b'' ((10, 0, 0), (2, 6, 1))])
           \<lparr>data_meshes := [\<lparr>mesh_input = ma, mesh_target = ma\<rparr>,
                            \<lparr>mesh_input = mb, mesh_target = mb\<rparr>]\<rparr>)"

text \<open>A store holding one dataset, \<^verbatim>\<open>/a\<close>, every voxel 1.\<close>

definition hdd_world :: world where
  "hdd_world = \<lparr>datasets = [''/a'' \<mapsto> (\<lambda>x y z. 1)], dirs = {}, read_log = [], draws = 0\<rparr>"

text \<open>One source of extent \<open>(2, 2, 1)\<close> with both caches enabled, cache root \<^verbatim>\<open>.\<close>.\<close>

definition caching_config :: WkwData where
  "caching_config = (demo_config (2, 2, 1) [demo_source ''1'' ''/a'' ((0, 0, 0), (2, 2, 1))])
                      \<lparr>cache_RAM := True, cache_HDD := True\<rparr>"

text \<open>The dataset \<^verbatim>\<open>/a\<close>, every voxel 1, with a disk cache \<^verbatim>\<open>./a\<close> holding the given voxels.\<close>

definition cache_world :: "volume \<Rightarrow> world" where
  "cache_world cached =
     \<lparr>datasets = [''/a'' \<mapsto> (\<lambda>x y z. 1), ''./a'' \<mapsto> cached], dirs = {}, read_log = [],
      draws = 0\<rparr>"

section \<open>Basic facts\<close>

lemma ebind_Inr [simp]: "ebind (Inr x) f = f x"
  by (simp add: ebind_def)

lemma ebind_Inl [simp]: "ebind (Inl e) f = Inl e"
  by (simp add: ebind_def)

lemma for_each_append:
  "for_each (xs @ ys) body s = ebind (for_each xs body s) (for_each ys body)"
  by (induction xs arbitrary: s) (simp_all add: ebind_def split: sum.splits)

lemma for_each_snoc:
  "for_each xs body s = Inr s1 \<Longrightarrow> for_each (xs @ [x]) body s = body s1 x"
  by (simp add: for_each_append ebind_def split: sum.splits)

lemmas eval_defs =
  get_data_meshes_def get_data_mesh_def get_data_axes_def py_nth_def mesh_axis_def arange_def
  corner_min_target_def corner_max_target_def n_fits_def meshgrid_def
  get_data_ind_ranges_def get_data_ind_ranges_body_def nd_size_def len_def
  get_source_mesh_for_sample_idx_def argmax_ge_def unravel_index_def

section \<open>The coordinate grid\<close>

lemma mesh_axis_Inr:
  assumes "st \<noteq> 0"
  shows "mesh_axis p e w st =
           Inr (map (\<lambda>i. corner_min_target p w + int i * st) [0..<nat (n_fits e w st)])"
proof -
  have "corner_min_target p w - (corner_max_target p e w st + st) = (- n_fits e w st) * st"
    by (simp add: corner_max_target_def algebra_simps)
  moreover have "((- n_fits e w st) * st) div st = - n_fits e w st"
    using assms by (rule nonzero_mult_div_cancel_right)
  ultimately have
    "(corner_min_target p w - (corner_max_target p e w st + st)) div st = - n_fits e w st"
    by (simp only:)
  then show ?thesis using assms by (simp add: mesh_axis_def arange_def)
qed


lemma n_fits_nonpos: "0 < st \<Longrightarrow> e < w \<Longrightarrow> n_fits e w st \<le> 0"
proof -
  assume "0 < st" "e < w"
  then have "(e - w) div st < 0" by (simp add: div_neg_pos_less0)
  then show ?thesis by (simp add: n_fits_def)
qed


lemma mesh_axis_empty:
  assumes "0 < st" "e < w"
  shows "mesh_axis p e w st = Inr []"
proof -
  have "n_fits e w st \<le> 0" using assms by (rule n_fits_nonpos)
  then show ?thesis using assms(1) by (simp add: mesh_axis_Inr)
qed

lemma length_concat_grid:
  "length (concat (map (\<lambda>a. concat (map (\<lambda>b. map (f a b) z) x)) y))
     = length y * length x * length z"
  by (induction y) (simp_all add: length_concat comp_def sum_list_triv algebra_simps)

lemma meshgrid_shape:
  "meshgrid x y z = (xm, ym, zm) \<Longrightarrow>
     shape xm = [length y, length x, length z] \<and> shape ym = shape xm \<and> shape zm = shape xm"
  by (auto simp: meshgrid_def Let_def)

lemma meshgrid_length:
  "meshgrid x y z = (xm, ym, zm) \<Longrightarrow>
     length (elems xm) = length y * length x * length z
   \<and> length (elems ym) = length y * length x * length z
   \<and> length (elems zm) = length y * length x * length z"
  unfolding meshgrid_def Let_def
  by (auto simp only: length_concat_grid prod.inject ndarray.simps)

lemma get_data_mesh_of_axes:
  assumes "get_data_axes s i = Inr (x, y, z)"
  shows "\<exists>m. get_data_mesh s i = Inr m
           \<and> shape (mesh_x (mesh_target m)) = [length y, length x, length z]
           \<and> nd_size (mesh_x (mesh_target m)) = length x * length y * length z
           \<and> length (elems (mesh_x (mesh_target m))) = length x * length y * length z
           \<and> mesh_input m = mesh_target m"
proof -
  obtain xm ym zm where mg: "meshgrid x y z = (xm, ym, zm)" by (cases "meshgrid x y z") auto
  have run: "get_data_mesh s i = Inr \<lparr>mesh_input = \<lparr>mesh_x = xm, mesh_y = ym, mesh_z = zm\<rparr>,
              mesh_target = \<lparr>mesh_x = xm, mesh_y = ym, mesh_z = zm\<rparr>\<rparr>"
    using assms mg by (simp add: get_data_mesh_def)
  have sh: "shape xm = [length y, length x, length z]" using meshgrid_shape [OF mg] by simp
  have ln: "length (elems xm) = length y * length x * length z"
    using meshgrid_length [OF mg] by simp
  show ?thesis using run sh ln by (simp add: nd_size_def algebra_simps)
qed



section \<open>The index ranges\<close>

lemma ranges_prefix:
  assumes "data_inds_min s = []" "data_inds_max s = []"
  shows "k \<le> length (data_meshes s) \<Longrightarrow>
     for_each [0..<k] get_data_ind_ranges_body s =
       Inr (s\<lparr>data_inds_min := map (range_lo (data_meshes s)) [0..<k],
               data_inds_max := map (range_hi (data_meshes s)) [0..<k]\<rparr>)"
proof (induction k)
  case 0
  then show ?case using assms by simp
next
  case (Suc k)
  then have IH: "for_each [0..<k] get_data_ind_ranges_body s =
       Inr (s\<lparr>data_inds_min := map (range_lo (data_meshes s)) [0..<k],
               data_inds_max := map (range_hi (data_meshes s)) [0..<k]\<rparr>)"
    and k: "k < length (data_meshes s)" by simp_all
  have "for_each ([0..<k] @ [k]) get_data_ind_ranges_body s =
      get_data_ind_ranges_body (s\<lparr>data_inds_min := map (range_lo (data_meshes s)) [0..<k],
               data_inds_max := map (range_hi (data_meshes s)) [0..<k]\<rparr>) k"
    by (rule for_each_snoc [OF IH])
  also have "\<dots> = Inr (s\<lparr>data_inds_min := map (range_lo (data_meshes s)) [0..<Suc k],
               data_inds_max := map (range_hi (data_meshes s)) [0..<Suc k]\<rparr>)"
  proof (cases k)
    case 0
    then show ?thesis using k
      by (simp add: get_data_ind_ranges_body_def py_nth_def Let_def range_hi_def cells_def)
  next
    case (Suc j)
    then show ?thesis using k
      by (simp add: get_data_ind_ranges_body_def py_nth_def Let_def range_hi_def cells_def
          nth_append)
  qed
  finally show ?case by simp
qed

lemma get_data_ind_ranges_closed:
  assumes "length (data_meshes s) = length (data_sources s)"
    and "data_inds_min s = []" and "data_inds_max s = []"
  shows "get_data_ind_ranges s =
       Inr (s\<lparr>data_inds_min := map (range_lo (data_meshes s)) [0..<length (data_sources s)],
               data_inds_max := map (range_hi (data_meshes s)) [0..<length (data_sources s)]\<rparr>)"
  unfolding get_data_ind_ranges_def
  using ranges_prefix [OF assms(2,3), of "length (data_sources s)"] assms(1) by simp

lemma cells_nonneg: "0 \<le> cells ms i"
  by (simp add: cells_def)

lemma range_lo_mono: "i \<le> j \<Longrightarrow> range_lo ms i \<le> range_lo ms j"
proof (induction j)
  case 0 then show ?case by simp
next
  case (Suc j)
  then show ?case using cells_nonneg [of ms j] by (cases "i = Suc j") auto
qed

lemma range_hi_less_lo: "i < j \<Longrightarrow> range_hi ms i < range_lo ms j"
proof -
  assume "i < j"
  then have "range_lo ms (Suc i) \<le> range_lo ms j" by (intro range_lo_mono) simp
  then show ?thesis by (simp add: range_hi_def)
qed

lemma unravel_bounds: "n < prod_list ds \<Longrightarrow> list_all2 (<) (unravel n ds) ds"
proof (induction ds arbitrary: n)
  case Nil then show ?case by simp
next
  case (Cons d ds)
  then have pos: "0 < prod_list ds" by (cases "prod_list ds") auto
  have "n div prod_list ds < d" using Cons.prems pos
    by (simp add: less_mult_imp_div_less mult.commute)
  moreover have "n mod prod_list ds < prod_list ds" using pos by simp
  ultimately show ?case using Cons.IH by simp
qed

lemma ravel_unravel: "n < prod_list ds \<Longrightarrow> ravel_index (unravel n ds) ds = n"
proof (induction ds arbitrary: n)
  case Nil then show ?case by simp
next
  case (Cons d ds)
  then have pos: "0 < prod_list ds" by (cases "prod_list ds") auto
  then have "ravel_index (unravel (n mod prod_list ds) ds) ds = n mod prod_list ds"
    using Cons.IH by simp
  then show ?case by simp
qed

lemma argmax_ge_first:
  assumes "maxs \<noteq> []" "g \<le> last maxs"
  shows "\<exists>k. argmax_ge maxs g = Inr k \<and> k < length maxs \<and> g \<le> maxs ! k
            \<and> (\<forall>j<k. maxs ! j < g)"
proof -
  let ?P = "\<lambda>m. \<not> g \<le> m"
  let ?k = "length (takeWhile ?P maxs)"
  have "?k \<noteq> length maxs"
  proof
    assume "?k = length maxs"
    then have "takeWhile ?P maxs = maxs"
      by (metis takeWhile_eq_take take_all order_refl)
    then have "\<forall>m\<in>set maxs. ?P m" by (metis set_takeWhileD)
    then show False using assms by (meson last_in_set)
  qed
  moreover have le: "?k \<le> length maxs" by (rule length_takeWhile_le)
  ultimately have lt: "?k < length maxs" by simp
  then have "g \<le> maxs ! ?k" using nth_length_takeWhile [of ?P maxs] by simp
  moreover have "\<forall>j<?k. maxs ! j < g"
  proof (intro allI impI)
    fix j assume j: "j < ?k"
    then have "takeWhile ?P maxs ! j = maxs ! j" by (rule takeWhile_nth)
    moreover have "takeWhile ?P maxs ! j \<in> set (takeWhile ?P maxs)" using j by simp
    ultimately show "maxs ! j < g" by (metis set_takeWhileD not_le)
  qed
  ultimately show ?thesis using assms lt by (simp add: argmax_ge_def Let_def)
qed

lemma locate_closed:
  assumes n: "0 < n" "n \<le> length ms"
    and mins: "data_inds_min s' = map (range_lo ms) [0..<n]"
    and maxs: "data_inds_max s' = map (range_hi ms) [0..<n]"
    and meshes: "data_meshes s' = ms"
    and g: "0 \<le> g \<and> g < range_hi ms (n - 1) + 1"
  shows "\<exists>src cell. get_source_mesh_for_sample_idx s' g = Inr (src, cell) \<and> src < n
           \<and> data_inds_min s' ! src \<le> g \<and> g \<le> data_inds_max s' ! src
           \<and> (\<forall>t<n. data_inds_min s' ! t \<le> g \<and> g \<le> data_inds_max s' ! t \<longrightarrow> t = src)
           \<and> list_all2 (<) cell (shape (mesh_x (mesh_target (ms ! src))))
           \<and> data_inds_min s' ! src
                + int (ravel_index cell (shape (mesh_x (mesh_target (ms ! src))))) = g"
proof -
  let ?maxs = "map (range_hi ms) [0..<n]"
  have lo_eq: "\<And>t. t < n \<Longrightarrow> data_inds_min s' ! t = range_lo ms t" by (simp add: mins)
  have hi_eq: "\<And>t. t < n \<Longrightarrow> data_inds_max s' ! t = range_hi ms t" by (simp add: maxs)
  have ne: "?maxs \<noteq> []" using n by simp
  have "last ?maxs = range_hi ms (n - 1)" using n by (simp add: last_map last_upt)
  then have "g \<le> last ?maxs" using g by simp
  from argmax_ge_first [OF ne this]
  obtain k where k: "argmax_ge ?maxs g = Inr k" "k < n" "g \<le> range_hi ms k"
      "\<forall>j<k. range_hi ms j < g"
    by auto
  have lo: "range_lo ms k \<le> g"
  proof (cases k)
    case 0 then show ?thesis using g by simp
  next
    case (Suc j)
    then have "range_hi ms j < g" using k(4) by simp
    then show ?thesis using Suc by (simp add: range_hi_def)
  qed
  let ?sh = "shape (mesh_x (mesh_target (ms ! k)))"
  have sz: "g - range_lo ms k < int (prod_list ?sh)"
    using k(3) by (simp add: range_hi_def cells_def nd_size_def)
  then have nsz: "nat (g - range_lo ms k) < prod_list ?sh" using lo by linarith
  have uniq: "\<forall>t<n. data_inds_min s' ! t \<le> g \<and> g \<le> data_inds_max s' ! t \<longrightarrow> t = k"
  proof (intro allI impI)
    fix t assume t: "t < n" and r: "data_inds_min s' ! t \<le> g \<and> g \<le> data_inds_max s' ! t"
    then have r': "range_lo ms t \<le> g" "g \<le> range_hi ms t" by (simp_all add: lo_eq hi_eq)
    have "\<not> t < k"
    proof
      assume "t < k"
      then have "range_hi ms t < g" using k(4) by simp
      then show False using r'(2) by simp
    qed
    moreover have "\<not> k < t"
    proof
      assume "k < t"
      then have "range_hi ms k < range_lo ms t" by (rule range_hi_less_lo)
      then show False using k(3) r'(1) by simp
    qed
    ultimately show "t = k" by simp
  qed
  have run: "get_source_mesh_for_sample_idx s' g = Inr (k, unravel (nat (g - range_lo ms k)) ?sh)"
    using k(1,2) n lo sz
    by (simp add: get_source_mesh_for_sample_idx_def mins maxs meshes py_nth_def
        unravel_index_def)
  have rav: "data_inds_min s' ! k
      + int (ravel_index (unravel (nat (g - range_lo ms k)) ?sh) ?sh) = g"
    using ravel_unravel [OF nsz] lo lo_eq [OF k(2)] by simp
  have b1: "data_inds_min s' ! k \<le> g" using lo lo_eq [OF k(2)] by simp
  have b2: "g \<le> data_inds_max s' ! k" using k(3) hi_eq [OF k(2)] by simp
  show ?thesis
    apply (rule exI [of _ k], rule exI [of _ "unravel (nat (g - range_lo ms k)) ?sh"], intro conjI)
          apply (rule run)
         apply (rule k(2))
        apply (rule b1)
       apply (rule b2)
      apply (rule uniq)
     apply (rule unravel_bounds [OF nsz])
    apply (rule rav)
    done
qed

text \<open>
  Claim C1. For a dataset with at least one source, whose meshes are computed and whose
  index lists are still empty (the state in which \<^verbatim>\<open>__init__\<close> calls it),
  \<open>get_data_ind_ranges\<close> returns, and the ranges tile \<open>[0, len - 1]\<close>: the first starts
  at 0, each next one at the previous maximum plus one, each maximum is the minimum plus
  the number of grid cells minus one, and the last maximum is \<open>len - 1\<close>. Every index \<open>g\<close>
  in \<open>[0, len - 1]\<close> is then resolved by \<open>get_source_mesh_for_sample_idx\<close> to a source whose
  range holds \<open>g\<close>, the only such source, and to a grid cell within the shape of that
  source's grid whose row-major position, added to the source's minimum, is \<open>g\<close> again.
\<close>

theorem index_ranges_tile:
  assumes "data_sources s \<noteq> []"
    and "length (data_meshes s) = length (data_sources s)"
    and "data_inds_min s = []" and "data_inds_max s = []"
  shows "\<exists>s' N. get_data_ind_ranges s = Inr s' \<and> len s' = Inr N
     \<and> length (data_inds_min s') = length (data_sources s)
     \<and> length (data_inds_max s') = length (data_sources s)
     \<and> data_inds_min s' ! 0 = 0
     \<and> (\<forall>i. 0 < i \<and> i < length (data_sources s) \<longrightarrow>
            data_inds_min s' ! i = data_inds_max s' ! (i - 1) + 1)
     \<and> (\<forall>i < length (data_sources s).
            data_inds_max s' ! i =
              data_inds_min s' ! i + int (nd_size (mesh_x (mesh_target (data_meshes s ! i)))) - 1)
     \<and> data_inds_max s' ! (length (data_sources s) - 1) = N - 1
     \<and> (\<forall>g. 0 \<le> g \<and> g < N \<longrightarrow>
           (\<exists>src cell. get_source_mesh_for_sample_idx s' g = Inr (src, cell)
              \<and> src < length (data_sources s)
              \<and> data_inds_min s' ! src \<le> g \<and> g \<le> data_inds_max s' ! src
              \<and> (\<forall>t < length (data_sources s).
                    data_inds_min s' ! t \<le> g \<and> g \<le> data_inds_max s' ! t \<longrightarrow> t = src)
              \<and> list_all2 (<) cell (shape (mesh_x (mesh_target (data_meshes s ! src))))
              \<and> data_inds_min s' ! src
                  + int (ravel_index cell (shape (mesh_x (mesh_target (data_meshes s ! src))))) = g))"
proof -
  let ?n = "length (data_sources s)"
  let ?ms = "data_meshes s"
  let ?s' = "s\<lparr>data_inds_min := map (range_lo ?ms) [0..<?n],
               data_inds_max := map (range_hi ?ms) [0..<?n]\<rparr>"
  have n: "0 < ?n" using assms(1) by simp
  have nle: "?n \<le> length ?ms" using assms(2) by simp
  have run: "get_data_ind_ranges s = Inr ?s'"
    by (rule get_data_ind_ranges_closed [OF assms(2,3,4)])
  have len: "len ?s' = Inr (range_hi ?ms (?n - 1) + 1)"
    using n by (simp add: len_def last_map last_upt)
  have step: "\<forall>i. 0 < i \<and> i < ?n \<longrightarrow>
            data_inds_min ?s' ! i = data_inds_max ?s' ! (i - 1) + 1"
  proof (intro allI impI)
    fix i assume i: "0 < i \<and> i < ?n"
    then obtain j where "i = Suc j" by (cases i) auto
    then show "data_inds_min ?s' ! i = data_inds_max ?s' ! (i - 1) + 1"
      using i by (simp add: range_hi_def)
  qed
  have width: "\<forall>i < ?n. data_inds_max ?s' ! i =
              data_inds_min ?s' ! i + int (nd_size (mesh_x (mesh_target (?ms ! i)))) - 1"
    by (simp add: range_hi_def cells_def)
  have m1: "data_inds_min ?s' = map (range_lo ?ms) [0..<?n]" by simp
  have m2: "data_inds_max ?s' = map (range_hi ?ms) [0..<?n]" by simp
  have m3: "data_meshes ?s' = ?ms" by simp
  have first: "data_inds_min ?s' ! 0 = 0" using n by simp
  have lens: "length (data_inds_min ?s') = ?n" "length (data_inds_max ?s') = ?n" by simp_all
  have lastmax: "data_inds_max ?s' ! (?n - 1) = (range_hi ?ms (?n - 1) + 1) - 1" using n by simp
  show ?thesis
    apply (rule exI [of _ ?s'], rule exI [of _ "range_hi ?ms (?n - 1) + 1"], intro conjI)
            apply (rule run)
           apply (rule len)
          apply (rule lens(1))
         apply (rule lens(2))
        apply (rule first)
       apply (rule step)
      apply (rule width)
     apply (rule lastmax)
    apply (intro allI impI)
    apply (rule locate_closed [OF n nle m1 m2 m3])
    apply assumption
    done
qed

lemma two_grids_built:
  "get_data_meshes (demo_config (2, 2, 1) [demo_source ''1'' ''/a'' ((0, 0, 0), (4, 4, 1)),
                                 demo_source ''2'' ''/b'' ((10, 0, 0), (2, 6, 1))]) = Inr two_grids"
  by (simp add: two_grids_def demo_config_def demo_source_def eval_defs Let_def upt_rec)

text \<open>
  The theorem at the two example sources: the dataset has length 7, and the index 5 is
  resolved to an owner and a cell from which it is recovered.
\<close>

theorem index_ranges_tile_witness:
  "\<exists>s'. get_data_ind_ranges two_grids = Inr s' \<and> len s' = Inr 7
      \<and> (\<exists>src cell. get_source_mesh_for_sample_idx s' 5 = Inr (src, cell)
            \<and> data_inds_min s' ! src \<le> 5 \<and> 5 \<le> data_inds_max s' ! src
            \<and> data_inds_min s' ! src
                + int (ravel_index cell (shape (mesh_x (mesh_target (data_meshes two_grids ! src)))))
              = 5)"
proof -
  have h: "data_sources two_grids \<noteq> []"
      "length (data_meshes two_grids) = length (data_sources two_grids)"
      "data_inds_min two_grids = []" "data_inds_max two_grids = []"
    by (simp_all add: two_grids_def demo_config_def Let_def)
  from index_ranges_tile [OF h] obtain s' N where
    run: "get_data_ind_ranges two_grids = Inr s'" and n: "len s' = Inr N"
    and loc: "\<forall>g. 0 \<le> g \<and> g < N \<longrightarrow>
           (\<exists>src cell. get_source_mesh_for_sample_idx s' g = Inr (src, cell)
              \<and> src < length (data_sources two_grids)
              \<and> data_inds_min s' ! src \<le> g \<and> g \<le> data_inds_max s' ! src
              \<and> (\<forall>t < length (data_sources two_grids).
                    data_inds_min s' ! t \<le> g \<and> g \<le> data_inds_max s' ! t \<longrightarrow> t = src)
              \<and> list_all2 (<) cell (shape (mesh_x (mesh_target (data_meshes two_grids ! src))))
              \<and> data_inds_min s' ! src
                  + int (ravel_index cell
                      (shape (mesh_x (mesh_target (data_meshes two_grids ! src))))) = g)"
    by blast
  have "get_data_ind_ranges two_grids
          = Inr (two_grids\<lparr>data_inds_min := [0, 4], data_inds_max := [3, 6]\<rparr>)"
    by (simp add: two_grids_def demo_config_def demo_source_def eval_defs Let_def upt_rec)
  with run have "s' = two_grids\<lparr>data_inds_min := [0, 4], data_inds_max := [3, 6]\<rparr>" by simp
  with n have N: "N = 7" by (simp add: len_def)
  from loc N have "\<exists>src cell. get_source_mesh_for_sample_idx s' 5 = Inr (src, cell)
              \<and> src < length (data_sources two_grids)
              \<and> data_inds_min s' ! src \<le> 5 \<and> 5 \<le> data_inds_max s' ! src
              \<and> (\<forall>t < length (data_sources two_grids).
                    data_inds_min s' ! t \<le> 5 \<and> 5 \<le> data_inds_max s' ! t \<longrightarrow> t = src)
              \<and> list_all2 (<) cell (shape (mesh_x (mesh_target (data_meshes two_grids ! src))))
              \<and> data_inds_min s' ! src
                  + int (ravel_index cell
                      (shape (mesh_x (mesh_target (data_meshes two_grids ! src))))) = 5"
    by simp
  then obtain src cell where "get_source_mesh_for_sample_idx s' 5 = Inr (src, cell)"
     "data_inds_min s' ! src \<le> 5" "5 \<le> data_inds_max s' ! src"
     "data_inds_min s' ! src
        + int (ravel_index cell (shape (mesh_x (mesh_target (data_meshes two_grids ! src))))) = 5"
    by blast
  with run n N show ?thesis by blast
qed

section \<open>A window larger than the source\<close>

lemma get_data_mesh_meshes_upd [simp]:
  "get_data_mesh (s\<lparr>data_meshes := ms\<rparr>) i = get_data_mesh s i"
  by (simp add: get_data_mesh_def get_data_axes_def)

lemma get_data_axes_total:
  assumes "i < length (data_sources s)"
    and "fst (stride s) \<noteq> 0" and "fst (snd (stride s)) \<noteq> 0" and "snd (snd (stride s)) \<noteq> 0"
  shows "\<exists>a. get_data_axes s i = Inr a"
proof -
  obtain px py pz ex ey ez where b: "input_bbox (data_sources s ! i) = ((px, py, pz), (ex, ey, ez))"
    by (metis prod_cases3)
  obtain wx wy wz where w: "input_shape s = (wx, wy, wz)" by (metis prod_cases3)
  obtain sx sy sz where st: "stride s = (sx, sy, sz)" by (metis prod_cases3)
  show ?thesis using assms b w st
    by (simp add: get_data_axes_def py_nth_def mesh_axis_Inr)
qed

lemma get_data_mesh_total:
  assumes "i < length (data_sources s)"
    and "fst (stride s) \<noteq> 0" and "fst (snd (stride s)) \<noteq> 0" and "snd (snd (stride s)) \<noteq> 0"
  shows "get_data_mesh s i = Inr (mesh_of s i)"
proof -
  obtain x y z where "get_data_axes s i = Inr (x, y, z)"
    using get_data_axes_total [OF assms] by (metis prod_cases3)
  from get_data_mesh_of_axes [OF this] show ?thesis by (auto simp: mesh_of_def)
qed

lemma meshes_prefix:
  assumes "data_meshes s = []"
    and "fst (stride s) \<noteq> 0" and "fst (snd (stride s)) \<noteq> 0" and "snd (snd (stride s)) \<noteq> 0"
  shows "k \<le> length (data_sources s) \<Longrightarrow>
     for_each [0..<k]
       (\<lambda>s' i. ebind (get_data_mesh s' i) (\<lambda>m. Inr (s'\<lparr>data_meshes := data_meshes s' @ [m]\<rparr>))) s
     = Inr (s\<lparr>data_meshes := map (mesh_of s) [0..<k]\<rparr>)"
proof (induction k)
  case 0
  then show ?case using assms(1) by simp
next
  case (Suc k)
  let ?body = "\<lambda>s' i. ebind (get_data_mesh s' i)
                 (\<lambda>m. Inr (s'\<lparr>data_meshes := data_meshes s' @ [m]\<rparr>))"
  from Suc have IH: "for_each [0..<k] ?body s = Inr (s\<lparr>data_meshes := map (mesh_of s) [0..<k]\<rparr>)"
    and k: "k < length (data_sources s)" by simp_all
  have "for_each ([0..<k] @ [k]) ?body s = ?body (s\<lparr>data_meshes := map (mesh_of s) [0..<k]\<rparr>) k"
    by (rule for_each_snoc [OF IH])
  also have "\<dots> = Inr (s\<lparr>data_meshes := map (mesh_of s) [0..<Suc k]\<rparr>)"
    using get_data_mesh_total [OF k assms(2-4)] by simp
  finally show ?case by simp
qed

lemma get_data_meshes_closed:
  assumes "data_meshes s = []"
    and "fst (stride s) \<noteq> 0" and "fst (snd (stride s)) \<noteq> 0" and "snd (snd (stride s)) \<noteq> 0"
  shows "get_data_meshes s
           = Inr (s\<lparr>data_meshes := map (mesh_of s) [0..<length (data_sources s)]\<rparr>)"
  unfolding get_data_meshes_def using meshes_prefix [OF assms, of "length (data_sources s)"]
  by simp

lemma get_data_mesh_small:
  assumes "i < length (data_sources s)"
    and "input_bbox (data_sources s ! i) = ((px, py, pz), (ex, ey, ez))"
    and "input_shape s = (wx, wy, wz)" and "stride s = (sx, sy, sz)"
    and "0 < sx" and "0 < sy" and "0 < sz"
    and "ex < wx \<or> ey < wy \<or> ez < wz"
  shows "\<exists>m. get_data_mesh s i = Inr m \<and> nd_size (mesh_x (mesh_target m)) = 0
            \<and> elems (mesh_x (mesh_target m)) = []"
proof -
  obtain x where x: "mesh_axis px ex wx sx = Inr x" using assms(5) by (simp add: mesh_axis_Inr)
  obtain y where y: "mesh_axis py ey wy sy = Inr y" using assms(6) by (simp add: mesh_axis_Inr)
  obtain z where z: "mesh_axis pz ez wz sz = Inr z" using assms(7) by (simp add: mesh_axis_Inr)
  have "x = [] \<or> y = [] \<or> z = []"
    using assms(5-8) x y z mesh_axis_empty by fastforce
  then have zero: "length x * length y * length z = 0" by auto
  have axes: "get_data_axes s i = Inr (x, y, z)"
    using assms(1-4) x y z by (simp add: get_data_axes_def py_nth_def)
  from get_data_mesh_of_axes [OF axes] zero show ?thesis by auto
qed

lemma mesh_of_cong:
  "data_sources s = data_sources t \<Longrightarrow> input_shape s = input_shape t \<Longrightarrow> stride s = stride t
     \<Longrightarrow> mesh_of s = mesh_of t"
  by (rule ext) (simp add: mesh_of_def get_data_mesh_def get_data_axes_def)

lemma init_plain:
  assumes st: "(case stride' of None \<Rightarrow> target_shape | Some v \<Rightarrow> v) = (sx, sy, sz)"
    and pos: "sx \<noteq> 0" "sy \<noteq> 0" "sz \<noteq> 0"
  shows "\<exists>s. WkwData_init permutation w window target_shape srcs None stride'
               nrm tr padt False False hdd_root = Inr (s, w)
           \<and> data_sources s = srcs \<and> input_shape s = window \<and> stride s = (sx, sy, sz)
           \<and> data_meshes s = map (mesh_of s) [0..<length srcs]
           \<and> data_inds_min s = map (range_lo (data_meshes s)) [0..<length srcs]
           \<and> data_inds_max s = map (range_hi (data_meshes s)) [0..<length srcs]"
proof -
  define s0 where "s0 = \<lparr>input_shape = window, output_shape = target_shape,
                data_sources = srcs, data_split = None,
                stride = (case stride' of None \<Rightarrow> target_shape | Some st \<Rightarrow> st),
                normalize_opt = nrm, transforms = tr,
                pad_target = padt, cache_RAM = False, cache_HDD = False,
                cache_HDD_root = (case hdd_root of None \<Rightarrow> ''.'' | Some r \<Rightarrow> r),
                data_cache_input = Map.empty, data_meshes = [],
                data_inds_min = [], data_inds_max = [],
                data_train_inds = [], data_validation_inds = [], data_test_inds = []\<rparr>"
  define s1 where "s1 = s0\<lparr>data_meshes := map (mesh_of s0) [0..<length srcs]\<rparr>"
  define s2 where "s2 = s1\<lparr>data_inds_min := map (range_lo (data_meshes s1)) [0..<length srcs],
                 data_inds_max := map (range_hi (data_meshes s1)) [0..<length srcs]\<rparr>"
  have f0: "data_sources s0 = srcs" "input_shape s0 = window" "stride s0 = (sx, sy, sz)"
      "data_meshes s0 = []" "data_inds_min s0 = []" "data_inds_max s0 = []"
    by (simp_all add: s0_def st)
  have m: "get_data_meshes s0 = Inr s1"
    unfolding s1_def using get_data_meshes_closed [of s0] f0 pos by simp
  have f1: "data_sources s1 = srcs" "input_shape s1 = window" "stride s1 = (sx, sy, sz)"
      "data_meshes s1 = map (mesh_of s0) [0..<length srcs]"
      "data_inds_min s1 = []" "data_inds_max s1 = []"
    by (simp_all add: s1_def f0)
  have r: "get_data_ind_ranges s1 = Inr s2"
    unfolding s2_def using get_data_ind_ranges_closed [of s1] f1 by simp
  have f2: "data_sources s2 = srcs" "input_shape s2 = window" "stride s2 = (sx, sy, sz)"
      "data_meshes s2 = data_meshes s1"
      "data_inds_min s2 = map (range_lo (data_meshes s1)) [0..<length srcs]"
      "data_inds_max s2 = map (range_hi (data_meshes s1)) [0..<length srcs]"
    by (simp_all add: s2_def f1)
  have mo: "mesh_of s2 = mesh_of s0"
    by (rule mesh_of_cong) (simp_all add: f0 f2)
  have run: "WkwData_init permutation w window target_shape srcs None stride'
               nrm tr padt False False hdd_root = Inr (s2, w)"
    unfolding WkwData_init_def Let_def s0_def [symmetric] using m r by simp
  show ?thesis
    apply (rule exI [of _ s2], intro conjI)
          apply (rule run)
         apply (rule f2(1))
        apply (rule f2(2))
       apply (rule f2(3))
      apply (simp add: f2(4) f1(4) mo)
     apply (simp add: f2(4,5))
    apply (simp add: f2(4,6))
    done
qed

text \<open>
  Claim C6 fails as stated: construction raises nothing for a source whose extent
  \<open>(1, 4, 1)\<close> is below the window \<open>(2, 2, 1)\<close> along \<open>x\<close>. It returns the dataset with a grid
  of no cells and the index range \<open>[0, -1]\<close>.
\<close>

theorem small_extent_counterexample:
  "WkwData_init id empty_world (2, 2, 1) (2, 2, 1) [demo_source ''1'' ''/a'' ((0, 0, 0), (1, 4, 1))]
     None None False None False False False None = Inr (small_extent_dataset, empty_world)"
  by (simp add: WkwData_init_def small_extent_dataset_def demo_config_def demo_source_def
      eval_defs Let_def)

text \<open>
  Claim C6, amended. With a positive stride, no split and both caches disabled,
  construction returns for any list of sources, and a source whose extent is below the
  window along some axis gets a grid without cells from \<open>get_data_mesh\<close>, which raises
  nothing, and the empty index range from its minimum to its minimum minus one.
\<close>

theorem small_extent_gives_empty_grid:
  assumes "(case stride' of None \<Rightarrow> target_shape | Some v \<Rightarrow> v) = (sx, sy, sz)"
    and "0 < sx" and "0 < sy" and "0 < sz"
    and "i < length srcs"
    and "input_bbox (srcs ! i) = ((px, py, pz), (ex, ey, ez))"
    and "ex < wx \<or> ey < wy \<or> ez < wz"
  shows "\<exists>s. WkwData_init permutation w (wx, wy, wz) target_shape srcs None stride'
                 nrm tr padt False False hdd_root = Inr (s, w)
           \<and> get_data_mesh s i = Inr (data_meshes s ! i)
           \<and> nd_size (mesh_x (mesh_target (data_meshes s ! i))) = 0
           \<and> elems (mesh_x (mesh_target (data_meshes s ! i))) = []
           \<and> data_inds_max s ! i = data_inds_min s ! i - 1"
proof -
  have nz: "sx \<noteq> 0" "sy \<noteq> 0" "sz \<noteq> 0" using assms(2-4) by simp_all
  from init_plain [OF assms(1) nz, of permutation w "(wx, wy, wz)" srcs nrm tr padt hdd_root]
  obtain s where s: "WkwData_init permutation w (wx, wy, wz) target_shape srcs None stride'
               nrm tr padt False False hdd_root = Inr (s, w)"
      "data_sources s = srcs" "input_shape s = (wx, wy, wz)" "stride s = (sx, sy, sz)"
      "data_meshes s = map (mesh_of s) [0..<length srcs]"
      "data_inds_min s = map (range_lo (data_meshes s)) [0..<length srcs]"
      "data_inds_max s = map (range_hi (data_meshes s)) [0..<length srcs]"
    by blast
  have i: "i < length (data_sources s)" using assms(5) s(2) by simp
  have b: "input_bbox (data_sources s ! i) = ((px, py, pz), (ex, ey, ez))"
    using assms(6) s(2) by simp
  from get_data_mesh_small [OF i b s(3) s(4) assms(2-4) assms(7)]
  obtain m where m: "get_data_mesh s i = Inr m" "nd_size (mesh_x (mesh_target m)) = 0"
      "elems (mesh_x (mesh_target m)) = []" by blast
  have mi: "data_meshes s ! i = m"
  proof -
    have "data_meshes s ! i = mesh_of s i"
      using assms(5) by (subst s(5)) simp
    then show ?thesis using m(1) by (simp add: mesh_of_def)
  qed
  have rng: "data_inds_max s ! i = data_inds_min s ! i - 1"
    using assms(5) m(2) mi by (simp add: s(6,7) range_hi_def cells_def)
  show ?thesis using s(1) m mi rng by auto
qed

text \<open>The amended statement at the source of the counterexample.\<close>

theorem small_extent_witness:
  "\<exists>s. WkwData_init id empty_world (2, 2, 1) (2, 2, 1)
          [demo_source ''1'' ''/a'' ((0, 0, 0), (1, 4, 1))] None None False None False
          False False None = Inr (s, empty_world)
      \<and> get_data_mesh s 0 = Inr (data_meshes s ! 0)
      \<and> nd_size (mesh_x (mesh_target (data_meshes s ! 0))) = 0
      \<and> elems (mesh_x (mesh_target (data_meshes s ! 0))) = []
      \<and> data_inds_max s ! 0 = data_inds_min s ! 0 - 1"
  by (rule small_extent_gives_empty_grid [where sx = 2 and sy = 2 and sz = 1 and px = 0
        and py = 0 and pz = 0 and ex = 1 and ey = 4 and ez = 1])
     (simp_all add: demo_source_def)

section \<open>The memory cache that was never filled\<close>

lemma wkw_read_cached_absent:
  assumes "source_idx < length (data_sources s)"
    and "data_cache_input s (source_path (data_sources s ! source_idx) source_type) = None"
  shows "wkw_read_cached s w source_idx source_type wkw_bbox = Inl KeyError"
  using assms by (simp add: wkw_read_cached_def py_nth_def source_path_def Let_def)

lemma for_each_invariant:
  assumes "\<And>s x s'. P s \<Longrightarrow> x \<in> set xs \<Longrightarrow> body s x = Inr s' \<Longrightarrow> P s'"
    and "P s" and "for_each xs body s = Inr s'"
  shows "P s'"
  using assms
proof (induction xs arbitrary: s)
  case Nil
  then show ?case by simp
next
  case (Cons x xs)
  from Cons.prems(3) obtain s1 where s1: "body s x = Inr s1" "for_each xs body s1 = Inr s'"
    by (cases "body s x") (simp_all add: ebind_def)
  have p1: "P s1" using Cons.prems(1) [OF Cons.prems(2) _ s1(1)] by simp
  show ?case
  proof (rule Cons.IH [OF _ p1 s1(2)])
    fix t y t' assume "P t" "y \<in> set xs" "body t y = Inr t'"
    then show "P t'" using Cons.prems(1) [of t y t'] by simp
  qed
qed

lemma ebindE:
  assumes "ebind m f = Inr y"
  obtains x where "m = Inr x" "f x = Inr y"
  using assms by (cases m) (simp_all add: ebind_def)

lemma ram_off_upd [simp]:
  "ram_off srcs (s\<lparr>data_meshes := a\<rparr>) = ram_off srcs s"
  "ram_off srcs (s\<lparr>data_inds_min := b\<rparr>) = ram_off srcs s"
  "ram_off srcs (s\<lparr>data_inds_max := b\<rparr>) = ram_off srcs s"
  "ram_off srcs (s\<lparr>data_train_inds := b\<rparr>) = ram_off srcs s"
  "ram_off srcs (s\<lparr>data_validation_inds := b\<rparr>) = ram_off srcs s"
  "ram_off srcs (s\<lparr>data_test_inds := b\<rparr>) = ram_off srcs s"
  by (simp_all add: ram_off_def)

lemma get_data_meshes_ram_off:
  assumes "ram_off srcs s" "get_data_meshes s = Inr s'"
  shows "ram_off srcs s'"
proof (rule for_each_invariant [where P = "ram_off srcs", OF _ assms(1) assms(2) [unfolded get_data_meshes_def]])
  fix t x t' assume "ram_off srcs t"
    and "ebind (get_data_mesh t x) (\<lambda>m. Inr (t\<lparr>data_meshes := data_meshes t @ [m]\<rparr>)) = Inr t'"
  then show "ram_off srcs t'" by (elim ebindE) auto
qed

lemma get_data_ind_ranges_body_ram_off:
  assumes "ram_off srcs t" "get_data_ind_ranges_body t x = Inr t'"
  shows "ram_off srcs t'"
  using assms(2) unfolding get_data_ind_ranges_body_def Let_def
  by (elim ebindE) (use assms(1) in auto)

lemma get_data_ind_ranges_ram_off:
  assumes "ram_off srcs s" "get_data_ind_ranges s = Inr s'"
  shows "ram_off srcs s'"
  by (rule for_each_invariant [where P = "ram_off srcs", OF _ assms(1) assms(2) [unfolded get_data_ind_ranges_def]])
     (rule get_data_ind_ranges_body_ram_off)

lemma get_data_ind_splits_ram_off:
  assumes "ram_off srcs s" "get_data_ind_splits permutation s = Inr s'"
  shows "ram_off srcs s'"
proof (cases "data_split s")
  case None
  then show ?thesis using assms(2) by (simp add: get_data_ind_splits_def)
next
  case (Some sp)
  show ?thesis
  proof (cases sp)
    case (Fractions tr va te)
    show ?thesis
      using assms(2) unfolding get_data_ind_splits_def Some Fractions Let_def
      by (simp only: option.case DataSplit.case, elim ebindE)
         (use assms(1) in \<open>auto split: if_splits\<close>)
  next
    case (Strata tr va te)
    show ?thesis
      using assms(2) unfolding get_data_ind_splits_def Some Strata
      by (simp only: option.case DataSplit.case, elim ebindE) (use assms(1) in auto)
  qed
qed

lemma fill_cache_ram_off:
  assumes "ram_off srcs s" "fill_cache s w p b = Inr (s', w')"
  shows "ram_off srcs s'"
  using assms
  by (auto simp: fill_cache_def ram_off_def Let_def elim!: ebindE split: if_splits prod.splits)

lemma fill_caches_ram_off:
  assumes "ram_off srcs s" "fill_caches s w = Inr (s', w')"
  shows "ram_off srcs s'"
proof -
  have "(\<lambda>sw. ram_off srcs (fst sw)) (s', w')"
  proof (rule for_each_invariant [where P = "\<lambda>sw. ram_off srcs (fst sw)",
        OF _ _ assms(2) [unfolded fill_caches_def]])
    show "ram_off srcs (fst (s, w))" using assms(1) by simp
  next
    fix sw x sw'
    assume p: "ram_off srcs (fst sw)"
      and b: "(case sw of (s', w') \<Rightarrow> \<lambda>data_source.
                ebind (fill_cache s' w' (input_path data_source) (input_bbox data_source))
                  (\<lambda>(s'', w''). fill_cache s'' w'' (target_path data_source) (target_bbox data_source))) x
              = Inr sw'"
    obtain t u where sw: "sw = (t, u)" by (cases sw)
    obtain t' u' where sw': "sw' = (t', u')" by (cases sw')
    from b sw sw' obtain t1 u1 where
      "fill_cache t u (input_path x) (input_bbox x) = Inr (t1, u1)"
      "fill_cache t1 u1 (target_path x) (target_bbox x) = Inr (t', u')"
      by (auto elim!: ebindE)
    then show "ram_off srcs (fst sw')"
      using p sw sw' fill_cache_ram_off by (metis fst_conv)
  qed
  then show ?thesis by simp
qed

lemma init_ram_off:
  assumes "WkwData_init permutation w0 ishape tshape srcs split st nrm tr padt False chdd hdd_root
             = Inr (s1, w1)"
  shows "ram_off srcs s1"
proof -
  define s0 where "s0 = \<lparr>input_shape = ishape, output_shape = tshape,
                data_sources = srcs, data_split = split,
                stride = (case st of None \<Rightarrow> tshape | Some st \<Rightarrow> st),
                normalize_opt = nrm, transforms = tr,
                pad_target = padt, cache_RAM = False, cache_HDD = chdd,
                cache_HDD_root = (case hdd_root of None \<Rightarrow> ''.'' | Some r \<Rightarrow> r),
                data_cache_input = Map.empty, data_meshes = [],
                data_inds_min = [], data_inds_max = [],
                data_train_inds = [], data_validation_inds = [], data_test_inds = []\<rparr>"
  have r0: "ram_off srcs s0" by (simp add: ram_off_def s0_def)
  from assms obtain sa sb sc where
    a: "get_data_meshes s0 = Inr sa" and b: "get_data_ind_ranges sa = Inr sb"
    and c: "(if split \<noteq> None then get_data_ind_splits permutation sb else Inr sb) = Inr sc"
    and d: "(if False \<or> chdd then fill_caches sc w0 else Inr (sc, w0)) = Inr (s1, w1)"
    unfolding WkwData_init_def Let_def s0_def [symmetric] by (elim ebindE) blast
  have ra: "ram_off srcs sa" by (rule get_data_meshes_ram_off [OF r0 a])
  have rb: "ram_off srcs sb" by (rule get_data_ind_ranges_ram_off [OF ra b])
  have rc: "ram_off srcs sc"
    using c rb get_data_ind_splits_ram_off by (cases "split = None") auto
  show ?thesis using d rc fill_caches_ram_off by (cases chdd) auto
qed

text \<open>
  Claim C3. A call of \<^verbatim>\<open>wkw_read_cached\<close> for a source whose path is no key of the memory
  cache raises \<^verbatim>\<open>KeyError\<close>: neither the disk cache nor the source is read. That is so
  for every source of every dataset constructed with \<^verbatim>\<open>cache_RAM=False\<close> and
  \<^verbatim>\<open>cache_HDD=True\<close>, in whatever state the store is at the call, since \<^verbatim>\<open>fill_cache\<close>
  then leaves \<^verbatim>\<open>data_cache_input\<close> empty.
\<close>

theorem wkw_read_cached_KeyError:
  "(source_idx < length (data_sources s)
      \<and> data_cache_input s (source_path (data_sources s ! source_idx) source_type) = None
     \<longrightarrow> wkw_read_cached s w source_idx source_type wkw_bbox = Inl KeyError)
   \<and> (WkwData_init permutation w0 ishape tshape srcs split st nrm tr padt False True hdd_root
          = Inr (s1, w1) \<and> source_idx < length srcs
     \<longrightarrow> wkw_read_cached s1 w source_idx source_type wkw_bbox = Inl KeyError)"
proof (intro conjI impI)
  assume "source_idx < length (data_sources s)
      \<and> data_cache_input s (source_path (data_sources s ! source_idx) source_type) = None"
  then show "wkw_read_cached s w source_idx source_type wkw_bbox = Inl KeyError"
    by (simp add: wkw_read_cached_absent)
next
  assume a: "WkwData_init permutation w0 ishape tshape srcs split st nrm tr padt False True hdd_root
          = Inr (s1, w1) \<and> source_idx < length srcs"
  then have "ram_off srcs s1" using init_ram_off by blast
  then show "wkw_read_cached s1 w source_idx source_type wkw_bbox = Inl KeyError"
    using a by (intro wkw_read_cached_absent) (simp_all add: ram_off_def)
qed

subsection \<open>A dataset with the disk cache alone\<close>

lemmas cache_defs =
  fill_caches_def fill_cache_def wkw_read_def build4_def header_exists_def path_exists_def
  os_path_join_def wkw_header_def wkw_create_def wkw_write_def ndim_def
  assert_data_completeness_def any_face1_def any_face2_def any_face3_def at4_def

lemma init_hdd:
  "\<exists>s1 w1. WkwData_init id hdd_world (2, 2, 1) (2, 2, 1)
             [demo_source ''1'' ''/a'' ((0, 0, 0), (4, 4, 1))] None None False None False
             False True None = Inr (s1, w1)"
  by (simp add: WkwData_init_def hdd_world_def demo_source_def eval_defs cache_defs Let_def upt_rec)

theorem wkw_read_cached_KeyError_witness:
  "\<exists>s1 w1. WkwData_init id hdd_world (2, 2, 1) (2, 2, 1)
             [demo_source ''1'' ''/a'' ((0, 0, 0), (4, 4, 1))] None None False None False
             False True None = Inr (s1, w1)
     \<and> wkw_read_cached s1 w1 0 Input ((0, 0, 0), (2, 2, 1)) = Inl KeyError
     \<and> wkw_read_cached (demo_config (2, 2, 1) [demo_source ''1'' ''/a'' ((0, 0, 0), (4, 4, 1))])
          hdd_world 0 Target ((0, 0, 0), (2, 2, 1)) = Inl KeyError"
proof -
  obtain s1 w1 where i: "WkwData_init id hdd_world (2, 2, 1) (2, 2, 1)
             [demo_source ''1'' ''/a'' ((0, 0, 0), (4, 4, 1))] None None False None False
             False True None = Inr (s1, w1)"
    using init_hdd by blast
  have a: "wkw_read_cached s1 w1 0 Input ((0, 0, 0), (2, 2, 1)) = Inl KeyError"
    using wkw_read_cached_KeyError [of 0 s1 Input w1 "((0, 0, 0), (2, 2, 1))" id hdd_world
        "(2, 2, 1)" "(2, 2, 1)" "[demo_source ''1'' ''/a'' ((0, 0, 0), (4, 4, 1))]" None None False
        None False None s1 w1] i
    by simp
  have b: "wkw_read_cached (demo_config (2, 2, 1) [demo_source ''1'' ''/a'' ((0, 0, 0), (4, 4, 1))])
          hdd_world 0 Target ((0, 0, 0), (2, 2, 1)) = Inl KeyError"
    using wkw_read_cached_KeyError [of 0
        "demo_config (2, 2, 1) [demo_source ''1'' ''/a'' ((0, 0, 0), (4, 4, 1))]" Target hdd_world
        "((0, 0, 0), (2, 2, 1))"]
    by (simp add: demo_config_def demo_source_def source_path_def)
  show ?thesis using i a b by blast
qed

text \<open>
  Claim C2 at a concrete input: one source \<^verbatim>\<open>/a\<close> of extent \<open>(4, 4, 1)\<close>, every voxel 1,
  constructed with \<^verbatim>\<open>cache_RAM=False\<close> and \<^verbatim>\<open>cache_HDD=True\<close>. Construction returns; then
  the cached read of the first window, and with it the sample of index 0, raise
  \<^verbatim>\<open>KeyError\<close>, where the direct read of the same box returns its four voxels.
\<close>

theorem cached_read_fails_where_direct_read_succeeds:
  "(case WkwData_init id hdd_world (2, 2, 1) (2, 2, 1)
           [demo_source ''1'' ''/a'' ((0, 0, 0), (4, 4, 1))] None None False None False
           False True None of
      Inl e \<Rightarrow> False
    | Inr (s1, w1) \<Rightarrow>
        get_ordered_sample s1 w1 0 None = Inl KeyError
      \<and> wkw_read_cached s1 w1 0 Input ((0, 0, 0), (2, 2, 1)) = Inl KeyError
      \<and> map_sum id fst (wkw_read w1 ''/a'' ((0, 0, 0), (2, 2, 1)))
          = Inr \<lparr>shape = [1, 2, 2, 1], elems = [1, 1, 1, 1]\<rparr>)"
  by (simp add: WkwData_init_def hdd_world_def demo_source_def eval_defs cache_defs Let_def upt_rec
       get_ordered_sample_def get_bbox_for_sample_idx_def wkw_read_cached_def at3_def)

section \<open>Filling the caches\<close>

lemma any_face1_iff: "i < shape a ! 1 \<Longrightarrow> any_face1 a i = face_nonzero a 1 i"
  by (auto simp: any_face1_def face_nonzero_def list_ex_iff Bex_def)

lemma any_face2_iff: "j < shape a ! 2 \<Longrightarrow> any_face2 a j = face_nonzero a 2 j"
  by (auto simp: any_face2_def face_nonzero_def list_ex_iff Bex_def)

lemma any_face3_iff: "k < shape a ! 3 \<Longrightarrow> any_face3 a k = face_nonzero a 3 k"
  by (auto simp: any_face3_def face_nonzero_def list_ex_iff Bex_def)

lemma assert_data_completeness_faces:
  assumes "ndim a = 4" "0 < shape a ! 1" "0 < shape a ! 2" "0 < shape a ! 3"
  shows "assert_data_completeness a = Inr (six_faces_nonzero a)"
  using assms
  by (simp add: assert_data_completeness_def six_faces_nonzero_def any_face1_iff any_face2_iff
      any_face3_iff)

lemma wkw_read_cube:
  assumes "datasets w p = Some v" "b = (pos, (ex, ey, ez))" "0 \<le> ex" "0 \<le> ey" "0 \<le> ez"
  shows "wkw_read w p b = Inr (cube v b, w\<lparr>read_log := read_log w @ [(p, b)]\<rparr>)"
  using assms by (cases pos) (simp add: wkw_read_def cube_def)

lemma cube_shape:
  "b = (pos, (ex, ey, ez)) \<Longrightarrow> shape (cube v b) = [1, nat ex, nat ey, nat ez]"
  by (cases pos) (simp add: cube_def build4_def)

lemma nth_concat_uniform:
  assumes "\<forall>xs \<in> set xss. length xs = m" "i < length xss" "j < m"
  shows "concat xss ! (i * m + j) = xss ! i ! j"
  using assms
proof (induction xss arbitrary: i)
  case Nil
  then show ?case by simp
next
  case (Cons xs xss)
  show ?case
  proof (cases i)
    case 0
    then show ?thesis using Cons.prems by (simp add: nth_append)
  next
    case (Suc i')
    then have "concat xss ! (i' * m + j) = xss ! i' ! j" using Cons by simp
    then show ?thesis using Suc Cons.prems by (simp add: nth_append)
  qed
qed

lemma length_concat_uniform:
  "\<forall>xs \<in> set xss. length xs = m \<Longrightarrow> length (concat xss) = length xss * m"
  by (induction xss) simp_all

lemma length_grid2:
  "length (concat (map (\<lambda>j. map (f j) [0..<n3]) [0..<n2])) = n2 * n3"
  by (simp add: length_concat comp_def sum_list_triv)

lemma length_grid3:
  "length (concat (map (\<lambda>i. concat (map (\<lambda>j. map (f i j) [0..<n3]) [0..<n2])) [0..<n1]))
     = n1 * n2 * n3"
  using length_concat_grid [of f "[0..<n3]" "[0..<n2]" "[0..<n1]"] by simp

lemma nth_grid2:
  assumes "i < n1" "j < n2"
  shows "concat (map (\<lambda>i. map (f i) [0..<n2]) [0..<n1]) ! (i * n2 + j) = f i j"
proof -
  have "concat (map (\<lambda>i. map (f i) [0..<n2]) [0..<n1]) ! (i * n2 + j)
      = map (\<lambda>i. map (f i) [0..<n2]) [0..<n1] ! i ! j"
    using assms by (intro nth_concat_uniform) auto
  then show ?thesis using assms by simp
qed

lemma nth_grid3:
  assumes "i < n1" "j < n2" "k < n3"
  shows "concat (map (\<lambda>i. concat (map (\<lambda>j. map (f i j) [0..<n3]) [0..<n2])) [0..<n1])
           ! ((i * n2 + j) * n3 + k) = f i j k"
proof -
  let ?row = "\<lambda>i. concat (map (\<lambda>j. map (f i j) [0..<n3]) [0..<n2])"
  have len: "\<forall>xs \<in> set (map ?row [0..<n1]). length xs = n2 * n3"
    by (auto simp: length_grid2)
  have jk: "j * n3 + k < n2 * n3"
  proof -
    have "j * n3 + k < (j + 1) * n3" using assms(3) by simp
    also have "\<dots> \<le> n2 * n3" using assms(2) by (intro mult_le_mono1) simp
    finally show ?thesis .
  qed
  have "concat (map ?row [0..<n1]) ! (i * (n2 * n3) + (j * n3 + k)) = map ?row [0..<n1] ! i ! (j * n3 + k)"
    using len assms(1) jk by (intro nth_concat_uniform) simp_all
  also have "\<dots> = ?row i ! (j * n3 + k)" using assms(1) by simp
  also have "\<dots> = f i j k" using assms(2,3) by (rule nth_grid2)
  finally show ?thesis by (simp add: algebra_simps)
qed

lemma at4_build4:
  assumes "c < n0" "i < n1" "j < n2" "k < n3"
  shows "at4 (build4 n0 n1 n2 n3 f) c i j k = f c i j k"
proof -
  let ?blk = "\<lambda>c. concat (map (\<lambda>i. concat (map (\<lambda>j. map (f c i j) [0..<n3]) [0..<n2])) [0..<n1])"
  have len: "\<forall>xs \<in> set (map ?blk [0..<n0]). length xs = n1 * n2 * n3"
    by (auto simp: length_grid3)
  have ijk: "(i * n2 + j) * n3 + k < n1 * n2 * n3"
  proof -
    have "i * n2 + j < (i + 1) * n2" using assms(3) by simp
    also have "\<dots> \<le> n1 * n2" using assms(2) by (intro mult_le_mono1) simp
    finally have a: "i * n2 + j + 1 \<le> n1 * n2" by simp
    have "(i * n2 + j) * n3 + k < (i * n2 + j + 1) * n3" using assms(4) by simp
    also have "\<dots> \<le> n1 * n2 * n3" using a by (intro mult_le_mono1)
    finally show ?thesis .
  qed
  have "concat (map ?blk [0..<n0]) ! (c * (n1 * n2 * n3) + ((i * n2 + j) * n3 + k))
          = map ?blk [0..<n0] ! c ! ((i * n2 + j) * n3 + k)"
    using len assms(1) ijk by (intro nth_concat_uniform) simp_all
  also have "\<dots> = ?blk c ! ((i * n2 + j) * n3 + k)" using assms(1) by simp
  also have "\<dots> = f c i j k" using assms(2-4) by (rule nth_grid3)
  finally show ?thesis by (simp add: at4_def build4_def algebra_simps)
qed

lemma build4_cong:
  assumes "\<And>c i j k. c < n0 \<Longrightarrow> i < n1 \<Longrightarrow> j < n2 \<Longrightarrow> k < n3 \<Longrightarrow> f c i j k = g c i j k"
  shows "build4 n0 n1 n2 n3 f = build4 n0 n1 n2 n3 g"
  unfolding build4_def using assms
  by (auto intro!: arg_cong [where f = concat] map_cong)

lemma cube_written:
  assumes "b = ((px, py, pz), (ex, ey, ez))" "shape d = [1, nat ex, nat ey, nat ez]"
    and "d = build4 1 (nat ex) (nat ey) (nat ez) g"
  shows "cube (\<lambda>x y z. if px \<le> x \<and> x < px + int (shape d ! 1)
                                \<and> py \<le> y \<and> y < py + int (shape d ! 2)
                                \<and> pz \<le> z \<and> z < pz + int (shape d ! 3)
                              then at4 d 0 (nat (x - px)) (nat (y - py)) (nat (z - pz))
                              else v x y z) b = d"
proof -
  have "build4 1 (nat ex) (nat ey) (nat ez)
          (\<lambda>c i j k. if px \<le> px + int i \<and> px + int i < px + int (shape d ! 1)
                                \<and> py \<le> py + int j \<and> py + int j < py + int (shape d ! 2)
                                \<and> pz \<le> pz + int k \<and> pz + int k < pz + int (shape d ! 3)
                              then at4 d 0 (nat (px + int i - px)) (nat (py + int j - py)) (nat (pz + int k - pz))
                              else v (px + int i) (py + int j) (pz + int k))
        = build4 1 (nat ex) (nat ey) (nat ez) g"
  proof (rule build4_cong)
    fix c i j k assume h: "c < (1::nat)" "i < nat ex" "j < nat ey" "k < nat ez"
    then have r: "int i < ex" "int j < ey" "int k < ez" "c = 0" by auto
    have sh: "shape d ! 1 = nat ex" "shape d ! 2 = nat ey" "shape d ! 3 = nat ez"
      using assms(2) by simp_all
    have "at4 d 0 i j k = g 0 i j k"
      unfolding assms(3) using h by (intro at4_build4) simp_all
    then show "(if px \<le> px + int i \<and> px + int i < px + int (shape d ! 1)
                                \<and> py \<le> py + int j \<and> py + int j < py + int (shape d ! 2)
                                \<and> pz \<le> pz + int k \<and> pz + int k < pz + int (shape d ! 3)
                              then at4 d 0 (nat (px + int i - px)) (nat (py + int j - py)) (nat (pz + int k - pz))
                              else v (px + int i) (py + int j) (pz + int k)) = g c i j k"
      using r sh by simp
  qed
  then show ?thesis by (simp add: cube_def assms(1) assms(3))
qed

lemma cube_ndim: "b = (pos, (ex, ey, ez)) \<Longrightarrow> ndim (cube v b) = 4"
  by (simp add: ndim_def cube_shape)

lemma cube_complete:
  assumes "b = (pos, (ex, ey, ez))" "0 < ex" "0 < ey" "0 < ez"
  shows "assert_data_completeness (cube v b) = Inr (six_faces_nonzero (cube v b))"
  using assms by (intro assert_data_completeness_faces) (simp_all add: cube_ndim cube_shape)

lemma six_faces_nonzero_any:
  assumes "0 < shape a ! 1" "0 < shape a ! 2" "0 < shape a ! 3"
  shows "six_faces_nonzero a \<longleftrightarrow>
           any_face1 a 0 \<and> any_face1 a (shape a ! 1 - 1)
         \<and> any_face2 a 0 \<and> any_face2 a (shape a ! 2 - 1)
         \<and> any_face3 a 0 \<and> any_face3 a (shape a ! 3 - 1)"
  using assms by (simp add: six_faces_nonzero_def any_face1_iff any_face2_iff any_face3_iff)

lemma wkw_write_Inr:
  assumes "datasets w p = Some v" "ndim d = 4"
  shows "wkw_write w p ((px, py, pz), ext) d =
           Inr (w\<lparr>datasets := (datasets w)(p \<mapsto>
                    (\<lambda>x y z. if px \<le> x \<and> x < px + int (shape d ! 1)
                                \<and> py \<le> y \<and> y < py + int (shape d ! 2)
                                \<and> pz \<le> z \<and> z < pz + int (shape d ! 3)
                              then at4 d 0 (nat (x - px)) (nat (y - py)) (nat (z - pz))
                              else v x y z))\<rparr>)"
  using assms by (simp add: wkw_write_def)

lemma wkw_write_cube:
  assumes "datasets w p = Some v" "b = ((px, py, pz), (ex, ey, ez))"
  shows "\<exists>v'. wkw_write w p b (cube v0 b) = Inr (w\<lparr>datasets := (datasets w)(p \<mapsto> v')\<rparr>)
            \<and> cube v' b = cube v0 b"
proof -
  define d where "d = cube v0 b"
  define v' where "v' = (\<lambda>x y z. if px \<le> x \<and> x < px + int (shape d ! 1)
                                \<and> py \<le> y \<and> y < py + int (shape d ! 2)
                                \<and> pz \<le> z \<and> z < pz + int (shape d ! 3)
                              then at4 d 0 (nat (x - px)) (nat (y - py)) (nat (z - pz))
                              else v x y z)"
  have nd: "ndim d = 4" unfolding d_def using assms(2) by (rule cube_ndim)
  have "wkw_write w p b d = Inr (w\<lparr>datasets := (datasets w)(p \<mapsto> v')\<rparr>)"
    unfolding assms(2) v'_def using assms(1) nd by (rule wkw_write_Inr)
  moreover have "cube v' b = d"
    unfolding v'_def
  proof (rule cube_written [OF assms(2)])
    show "shape d = [1, nat ex, nat ey, nat ez]"
      unfolding d_def using assms(2) by (rule cube_shape)
    show "d = build4 1 (nat ex) (nat ey) (nat ez)
                (\<lambda>c i j k. v0 (px + int i) (py + int j) (pz + int k))"
      by (simp add: d_def cube_def assms(2))
  qed
  ultimately show ?thesis unfolding d_def by blast
qed

lemma fill_cache_store:
  assumes hdd: "cache_HDD s"
    and cp: "cache_path = os_path_join (cache_HDD_root s) (drop 1 wkw_path)"
    and cv: "datasets w2 cache_path = Some v2"
    and bb: "wkw_bbox = ((px, py, pz), (ex, ey, ez))"
  shows "\<exists>s' w' cv'.
           (let s1 = (if cache_RAM s
                  then s\<lparr>data_cache_input := (data_cache_input s)(wkw_path \<mapsto>
                         (case data_cache_input s wkw_path of
                            None \<Rightarrow> [str_bbox wkw_bbox \<mapsto> cube v0 wkw_bbox]
                          | Some m \<Rightarrow> m(str_bbox wkw_bbox \<mapsto> cube v0 wkw_bbox)))\<rparr>
                  else s)
        in if cache_HDD s
           then let w3 = (if \<not> path_exists w2 cache_path
                          then w2\<lparr>dirs := insert cache_path (dirs w2)\<rparr> else w2)
                in ebind (if \<not> header_exists w3 cache_path
                          then ebind (wkw_header w3 wkw_path) (\<lambda>_. Inr (wkw_create w3 cache_path))
                          else Inr w3) (\<lambda>w4.
                   ebind (wkw_write w4 cache_path wkw_bbox (cube v0 wkw_bbox)) (\<lambda>w5. Inr (s1, w5)))
           else Inr (s1, w2)) = Inr (s', w')
         \<and> read_log w' = read_log w2
         \<and> datasets w' cache_path = Some cv' \<and> cube cv' wkw_bbox = cube v0 wkw_bbox
         \<and> (cache_RAM s \<longrightarrow> cached_entry s' wkw_path wkw_bbox = Some (cube v0 wkw_bbox))"
proof -
  obtain v' where v': "wkw_write w2 cache_path wkw_bbox (cube v0 wkw_bbox)
                         = Inr (w2\<lparr>datasets := (datasets w2)(cache_path \<mapsto> v')\<rparr>)"
      "cube v' wkw_bbox = cube v0 wkw_bbox"
    using wkw_write_cube [OF cv bb] by blast
  show ?thesis
    using hdd cv v'
    by (auto simp: Let_def path_exists_def header_exists_def cached_entry_def split: option.splits)
qed

text \<open>
  Claim C8. With the disk cache enabled and a cached dataset present, \<^verbatim>\<open>fill_cache\<close>
  returns, raising nothing. If each of the six faces of the cached cube holds a voxel
  that is not zero, the cached cube is the only read made and it is the cube kept, in
  memory (when \<^verbatim>\<open>cache_RAM\<close> is set) and on disk. If some face is all zero, the same box is
  read again from the source, and the cube of the source is the one kept.
\<close>

theorem fill_cache_completeness:
  assumes hdd: "cache_HDD s"
    and cp: "cache_path = os_path_join (cache_HDD_root s) (drop 1 wkw_path)"
    and cv: "datasets w cache_path = Some cv"
    and sv: "datasets w wkw_path = Some sv"
    and bb: "wkw_bbox = ((px, py, pz), (ex, ey, ez))" "0 < ex" "0 < ey" "0 < ez"
  shows "\<exists>s' w' cv'. fill_cache s w wkw_path wkw_bbox = Inr (s', w')
           \<and> datasets w' cache_path = Some cv'
           \<and> (if six_faces_nonzero (cube cv wkw_bbox)
              then read_log w' = read_log w @ [(cache_path, wkw_bbox)]
                 \<and> cube cv' wkw_bbox = cube cv wkw_bbox
                 \<and> (cache_RAM s \<longrightarrow> cached_entry s' wkw_path wkw_bbox = Some (cube cv wkw_bbox))
              else read_log w' = read_log w @ [(cache_path, wkw_bbox), (wkw_path, wkw_bbox)]
                 \<and> cube cv' wkw_bbox = cube sv wkw_bbox
                 \<and> (cache_RAM s \<longrightarrow> cached_entry s' wkw_path wkw_bbox = Some (cube sv wkw_bbox)))"
proof -
  define w1 where "w1 = w\<lparr>read_log := read_log w @ [(cache_path, wkw_bbox)]\<rparr>"
  define w2 where "w2 = w1\<lparr>read_log := read_log w1 @ [(wkw_path, wkw_bbox)]\<rparr>"
  have r1: "wkw_read w cache_path wkw_bbox = Inr (cube cv wkw_bbox, w1)"
    unfolding w1_def using bb by (intro wkw_read_cube [OF cv bb(1)]) simp_all
  have sv1: "datasets w1 wkw_path = Some sv" and cv1: "datasets w1 cache_path = Some cv"
    using sv cv by (simp_all add: w1_def)
  have r2: "wkw_read w1 wkw_path wkw_bbox = Inr (cube sv wkw_bbox, w2)"
    unfolding w2_def using bb by (intro wkw_read_cube [OF sv1 bb(1)]) simp_all
  have cv2: "datasets w2 cache_path = Some cv" using cv1 by (simp add: w2_def)
  have comp: "assert_data_completeness (cube cv wkw_bbox) = Inr (six_faces_nonzero (cube cv wkw_bbox))"
    using bb by (rule cube_complete)
  have hx: "header_exists w cache_path" using cv by (simp add: header_exists_def)
  show ?thesis
  proof (cases "six_faces_nonzero (cube cv wkw_bbox)")
    case True
    obtain s' w' cv' where st:
      "fill_cache s w wkw_path wkw_bbox = Inr (s', w')" "read_log w' = read_log w1"
      "datasets w' cache_path = Some cv'" "cube cv' wkw_bbox = cube cv wkw_bbox"
      "cache_RAM s \<longrightarrow> cached_entry s' wkw_path wkw_bbox = Some (cube cv wkw_bbox)"
      using fill_cache_store [OF hdd cp cv1 bb(1), of cv] True hdd hx r1 comp
      unfolding fill_cache_def Let_def cp [symmetric] by auto
    then show ?thesis using True by (auto simp: w1_def)
  next
    case False
    obtain s' w' cv' where st:
      "fill_cache s w wkw_path wkw_bbox = Inr (s', w')" "read_log w' = read_log w2"
      "datasets w' cache_path = Some cv'" "cube cv' wkw_bbox = cube sv wkw_bbox"
      "cache_RAM s \<longrightarrow> cached_entry s' wkw_path wkw_bbox = Some (cube sv wkw_bbox)"
      using fill_cache_store [OF hdd cp cv2 bb(1), of sv] False hdd hx r1 r2 comp
      unfolding fill_cache_def Let_def cp [symmetric] by auto
    then show ?thesis using False by (auto simp: w1_def w2_def)
  qed
qed

theorem fill_cache_completeness_witness:
  "(\<exists>s' w'. fill_cache caching_config (cache_world (\<lambda>x y z. 2)) ''/a'' ((0, 0, 0), (2, 2, 1))
              = Inr (s', w')
           \<and> read_log w' = [(''./a'', ((0, 0, 0), (2, 2, 1)))]
           \<and> cached_entry s' ''/a'' ((0, 0, 0), (2, 2, 1))
               = Some \<lparr>shape = [1, 2, 2, 1], elems = [2, 2, 2, 2]\<rparr>)
   \<and> (\<exists>s' w'. fill_cache caching_config (cache_world (\<lambda>x y z. if x = 0 then 0 else 2)) ''/a''
                ((0, 0, 0), (2, 2, 1)) = Inr (s', w')
           \<and> read_log w' = [(''./a'', ((0, 0, 0), (2, 2, 1))), (''/a'', ((0, 0, 0), (2, 2, 1)))]
           \<and> cached_entry s' ''/a'' ((0, 0, 0), (2, 2, 1))
               = Some \<lparr>shape = [1, 2, 2, 1], elems = [1, 1, 1, 1]\<rparr>)"
proof -
  let ?b = "((0, 0, 0), (2, 2, 1)) :: bbox"
  have c2: "cube (\<lambda>x y z. 2) ?b = \<lparr>shape = [1, 2, 2, 1], elems = [2, 2, 2, 2]\<rparr>"
    and c1: "cube (\<lambda>x y z. 1) ?b = \<lparr>shape = [1, 2, 2, 1], elems = [1, 1, 1, 1]\<rparr>"
    and c0: "cube (\<lambda>x y z. if x = 0 then 0 else 2) ?b = \<lparr>shape = [1, 2, 2, 1], elems = [0, 0, 2, 2]\<rparr>"
    by (simp_all add: cube_def build4_def upt_rec)
  have a: "six_faces_nonzero \<lparr>shape = [1, 2, 2, 1], elems = [2, 2, 2, 2]\<rparr>"
    by (simp add: six_faces_nonzero_any any_face1_def any_face2_def any_face3_def at4_def upt_rec)
  have b: "\<not> six_faces_nonzero \<lparr>shape = [1, 2, 2, 1], elems = [0, 0, 2, 2]\<rparr>"
    by (simp add: six_faces_nonzero_any any_face1_def any_face2_def any_face3_def at4_def upt_rec)
  have "\<exists>s' w'. fill_cache caching_config (cache_world (\<lambda>x y z. 2)) ''/a'' ?b = Inr (s', w')
           \<and> read_log w' = [(''./a'', ?b)]
           \<and> cached_entry s' ''/a'' ?b = Some \<lparr>shape = [1, 2, 2, 1], elems = [2, 2, 2, 2]\<rparr>"
    using fill_cache_completeness [of caching_config "''./a''" "''/a''" "cache_world (\<lambda>x y z. 2)"
        "\<lambda>x y z. 2" "\<lambda>x y z. 1" ?b 0 0 0 2 2 1] a
    by (simp add: caching_config_def demo_config_def cache_world_def os_path_join_def c2) blast
  moreover
  have "\<exists>s' w'. fill_cache caching_config (cache_world (\<lambda>x y z. if x = 0 then 0 else 2)) ''/a'' ?b
              = Inr (s', w')
           \<and> read_log w' = [(''./a'', ?b), (''/a'', ?b)]
           \<and> cached_entry s' ''/a'' ?b = Some \<lparr>shape = [1, 2, 2, 1], elems = [1, 1, 1, 1]\<rparr>"
    using fill_cache_completeness [of caching_config "''./a''" "''/a''"
        "cache_world (\<lambda>x y z. if x = 0 then 0 else 2)"
        "\<lambda>x y z. if x = 0 then 0 else 2" "\<lambda>x y z. 1" ?b 0 0 0 2 2 1] b
    by (simp add: caching_config_def demo_config_def cache_world_def os_path_join_def c0 c1) blast
  ultimately show ?thesis by blast
qed
end
